theory Spec2Isabelle
  imports Complex_Main "HOL-Library.Multiset"
begin

section \<open>Data model (packages/shared/src/types)\<close>

text \<open>
  The TypeScript type \<^verbatim>\<open>number\<close> is modelled by \<^typ>\<open>real\<close>: arithmetic is exact, and the
  rounding error of IEEE doubles, NaN and the infinities are outside the model. A tax
  year is a natural number. Of every interface only the fields that the registry, the
  calculator and the advisor read are kept, next to the identifier.
\<close>

datatype FilingStatus =
    SINGLE
  | MARRIED_FILING_JOINTLY
  | MARRIED_FILING_SEPARATELY
  | HEAD_OF_HOUSEHOLD
  | QUALIFYING_WIDOW

datatype ItemizedDeductionCategory =
    MEDICAL_DENTAL
  | STATE_LOCAL_TAXES
  | MORTGAGE_INTEREST
  | CHARITABLE_CONTRIBUTIONS
  | MISCELLANEOUS

datatype BusinessDeductionCategory =
    OFFICE_EXPENSES
  | TRAVEL
  | MEALS
  | VEHICLE
  | EQUIPMENT
  | PROFESSIONAL_SERVICES
  | INSURANCE
  | UTILITIES
  | RENT
  | SUPPLIES

text \<open>
  \<^verbatim>\<open>DeductionRecommendation.category\<close> has the union type
  \<^verbatim>\<open>ItemizedDeductionCategory | BusinessDeductionCategory\<close>.
\<close>

datatype RecommendationCategory =
    Itemized ItemizedDeductionCategory
  | Business BusinessDeductionCategory

record WageIncome =
  wages :: real
  federalTaxWithheld :: real

record SelfEmploymentIncome =
  netProfit :: real

record InvestmentIncome =
  taxableAmount :: real

record RetirementIncome =
  taxableAmount :: real
  federalTaxWithheld :: real

record OtherIncome =
  amount :: real
  taxable :: bool

record IncomeData =
  wages :: "WageIncome list"
  selfEmployment :: "SelfEmploymentIncome list"
  investment :: "InvestmentIncome list"
  retirement :: "RetirementIncome list"
  other :: "OtherIncome list"

record ItemizedDeduction =
  category :: ItemizedDeductionCategory
  amount :: real

record IncomeAdjustment =
  amount :: real

record DeductionData =
  itemizedDeductions :: "ItemizedDeduction list"
  totalItemizedDeductions :: real
  adjustments :: "IncomeAdjustment list"

record OtherCredit =
  amount :: real

record CreditData =
  childTaxCredit :: real
  earnedIncomeCredit :: real
  educationCredits :: real
  retirementSavingsCredit :: real
  otherCredits :: "OtherCredit list"

record TaxCalculation =
  grossIncome :: real
  adjustedGrossIncome :: real
  taxableIncome :: real
  federalTaxBeforeCredits :: real
  totalCredits :: real
  federalTaxAfterCredits :: real
  selfEmploymentTax :: real
  totalTaxLiability :: real
  totalWithholding :: real
  estimatedPayments :: real
  refundAmount :: real
  amountOwed :: real
  effectiveTaxRate :: real
  marginalTaxRate :: real

record TaxReturn =
  id :: string
  taxYear :: nat
  filingStatus :: FilingStatus
  income :: IncomeData
  deductions :: DeductionData
  credits :: CreditData
  calculations :: TaxCalculation

record TaxBracket =
  bmin :: real
  bmax :: real
  rate :: real

text \<open>
  The fields \<^verbatim>\<open>min\<close> and \<^verbatim>\<open>max\<close> of \<^verbatim>\<open>TaxBracket\<close> are named \<open>bmin\<close> and \<open>bmax\<close>,
  since \<open>min\<close> and \<open>max\<close> are the lattice operations of HOL. A
  \<^verbatim>\<open>Record<FilingStatus, T>\<close> is a function on \<^typ>\<open>FilingStatus\<close>.
\<close>

record TaxLawConfiguration =
  taxYear :: nat
  standardDeductions :: "FilingStatus \<Rightarrow> real"
  taxBrackets :: "FilingStatus \<Rightarrow> TaxBracket list"
  socialSecurityWageBase :: real
  socialSecurityRate :: real
  medicareRate :: real
  additionalMedicareRate :: real
  additionalMedicareThreshold :: "FilingStatus \<Rightarrow> real"
  personalExemption :: real
  childTaxCreditAmount :: real
  childTaxCreditPhaseoutThreshold :: "FilingStatus \<Rightarrow> real"

record DeductionRecommendation =
  category :: RecommendationCategory
  description :: string
  estimatedAmount :: real
  confidence :: real
  requiredDocuments :: "string list"
  potentialSavings :: real

datatype ErrorCodes =
    INVALID_CREDENTIALS
  | MFA_REQUIRED
  | INVALID_MFA_CODE
  | ACCOUNT_LOCKED
  | TOKEN_EXPIRED
  | VALIDATION_ERROR
  | DUPLICATE_EMAIL
  | WEAK_PASSWORD
  | INTERNAL_ERROR
  | SERVICE_UNAVAILABLE
  | RATE_LIMIT_EXCEEDED

record ApiError =
  code :: ErrorCodes
  message :: string

text \<open>
  An \<^verbatim>\<open>ApiResponse<T>\<close> with \<^verbatim>\<open>success: false\<close> is \<open>Inl\<close> of its error, one with
  \<^verbatim>\<open>success: true\<close> is \<open>Inr\<close> of its data.
\<close>

type_synonym 'a ApiResponse = "ApiError + 'a"

text \<open>
  Exceptions of the JavaScript runtime and of the database driver, and \<open>NonFinite\<close> for
  the result of a division by zero, which the runtime gives as Infinity or NaN and which
  is no number of the model.
\<close>

datatype exn = TypeError | QueryFailed | NonFinite

section \<open>Numbers and strings of the runtime\<close>

text \<open>\<^verbatim>\<open>Math.round\<close> rounds to the nearest integer, a tie towards plus infinity.\<close>

definition Math_round :: "real \<Rightarrow> real" where
  "Math_round x = of_int \<lfloor>x + 1 / 2\<rfloor>"

definition Math_ceil :: "real \<Rightarrow> real" where
  "Math_ceil x = of_int \<lceil>x\<rceil>"

text \<open>The operator \<^verbatim>\<open>/\<close> of the runtime, which has no finite result for the divisor 0.\<close>

definition js_divide :: "real \<Rightarrow> real \<Rightarrow> exn + real" where
  "js_divide a b = (if b = 0 then Inl NonFinite else Inr (a / b))"

definition digit_char :: "nat \<Rightarrow> char" where
  "digit_char d = ''0123456789'' ! d"

function nat_digits :: "nat \<Rightarrow> string" where
  "nat_digits n = (if n < 10 then [digit_char n] else nat_digits (n div 10) @ [digit_char (n mod 10)])"
  by pat_completeness auto
termination
  by (relation "measure (\<lambda>n. n)") auto

declare nat_digits.simps [simp del]

text \<open>
  \<^verbatim>\<open>x.toFixed(2)\<close> for a magnitude below \<open>10^21\<close>: the sign, the integer part, a point and two
  digits, of the nearest multiple of \<open>1/100\<close> (the larger one at a tie).
\<close>

definition toFixed2 :: "real \<Rightarrow> string" where
  "toFixed2 x =
     (let n = nat \<lfloor>\<bar>x\<bar> * 100 + 1 / 2\<rfloor>
      in (if x < 0 then ''-'' else '''') @ nat_digits (n div 100) @ ''.''
           @ [digit_char (n mod 100 div 10), digit_char (n mod 10)])"

section \<open>TaxLawService: the registry of law configurations\<close>

text \<open>
  The service owns a cache keyed by year and a connection pool. Of the pool the model
  keeps the table \<^verbatim>\<open>tax_law_configurations\<close> (its column \<^verbatim>\<open>tax_year\<close> is unique, so
  the table is a map from the year to the row, and a row is stored as the configuration
  that \<^verbatim>\<open>getTaxLawConfiguration\<close> builds from it) and whether the store answers at all:
  a query on a store that does not answer throws. Log output is not modelled.
\<close>

record Pool =
  available :: bool
  tax_law_configurations :: "nat \<rightharpoonup> TaxLawConfiguration"

record TaxLawService =
  db :: Pool
  configCache :: "nat \<rightharpoonup> TaxLawConfiguration"

text \<open>\<^verbatim>\<open>SELECT * FROM tax_law_configurations WHERE tax_year = $1\<close>: no row or one row.\<close>

definition query_select :: "Pool \<Rightarrow> nat \<Rightarrow> exn + TaxLawConfiguration option" where
  "query_select p y = (if available p then Inr (tax_law_configurations p y) else Inl QueryFailed)"

text \<open>\<^verbatim>\<open>INSERT ... ON CONFLICT (tax_year) DO UPDATE SET ...\<close>\<close>

definition query_upsert :: "Pool \<Rightarrow> TaxLawConfiguration \<Rightarrow> exn + Pool" where
  "query_upsert p config =
     (if available p
      then Inr (p\<lparr>tax_law_configurations :=
                   (tax_law_configurations p)(TaxLawConfiguration.taxYear config \<mapsto> config)\<rparr>)
      else Inl QueryFailed)"

text \<open>
  The result \<open>None\<close> is the \<^verbatim>\<open>null\<close> of the source, returned both when the table has no
  row for the year and from the \<^verbatim>\<open>catch\<close> block when the query throws.
\<close>

definition getTaxLawConfiguration ::
  "TaxLawService \<Rightarrow> nat \<Rightarrow> TaxLawConfiguration option \<times> TaxLawService" where
  "getTaxLawConfiguration svc y =
     (case configCache svc y of
        Some config \<Rightarrow> (Some config, svc)
      | None \<Rightarrow>
          (case query_select (db svc) y of
             Inr None \<Rightarrow> (None, svc)
           | Inr (Some config) \<Rightarrow> (Some config, svc\<lparr>configCache := (configCache svc)(y \<mapsto> config)\<rparr>)
           | Inl error \<Rightarrow> (None, svc)))"

definition updateTaxLawConfiguration ::
  "TaxLawService \<Rightarrow> TaxLawConfiguration \<Rightarrow> bool \<times> TaxLawService" where
  "updateTaxLawConfiguration svc config =
     (case query_upsert (db svc) config of
        Inr p \<Rightarrow>
          (True, svc\<lparr>db := p,
                     configCache := (configCache svc)(TaxLawConfiguration.taxYear config \<mapsto> config)\<rparr>)
      | Inl error \<Rightarrow> (False, svc))"

definition clearCache :: "TaxLawService \<Rightarrow> TaxLawService" where
  "clearCache svc = svc\<lparr>configCache := Map.empty\<rparr>"

definition mkBracket :: "real \<Rightarrow> real \<Rightarrow> real \<Rightarrow> TaxBracket" where
  "mkBracket lo hi r = \<lparr>bmin = lo, bmax = hi, rate = r\<rparr>"

definition standardDeductions2024 :: "FilingStatus \<Rightarrow> real" where
  "standardDeductions2024 fs =
     (case fs of
        SINGLE \<Rightarrow> 14600
      | MARRIED_FILING_JOINTLY \<Rightarrow> 29200
      | MARRIED_FILING_SEPARATELY \<Rightarrow> 14600
      | HEAD_OF_HOUSEHOLD \<Rightarrow> 21900
      | QUALIFYING_WIDOW \<Rightarrow> 29200)"

definition taxBrackets2024 :: "FilingStatus \<Rightarrow> TaxBracket list" where
  "taxBrackets2024 fs =
     (case fs of
        SINGLE \<Rightarrow>
          [mkBracket 0 11000 (10 / 100), mkBracket 11000 44725 (12 / 100),
           mkBracket 44725 95375 (22 / 100), mkBracket 95375 197050 (24 / 100),
           mkBracket 197050 250525 (32 / 100), mkBracket 250525 626350 (35 / 100),
           mkBracket 626350 999999999 (37 / 100)]
      | MARRIED_FILING_JOINTLY \<Rightarrow>
          [mkBracket 0 22000 (10 / 100), mkBracket 22000 89450 (12 / 100),
           mkBracket 89450 190750 (22 / 100), mkBracket 190750 364200 (24 / 100),
           mkBracket 364200 462500 (32 / 100), mkBracket 462500 693750 (35 / 100),
           mkBracket 693750 999999999 (37 / 100)]
      | MARRIED_FILING_SEPARATELY \<Rightarrow>
          [mkBracket 0 11000 (10 / 100), mkBracket 11000 44725 (12 / 100),
           mkBracket 44725 95375 (22 / 100), mkBracket 95375 182050 (24 / 100),
           mkBracket 182050 231250 (32 / 100), mkBracket 231250 346875 (35 / 100),
           mkBracket 346875 999999999 (37 / 100)]
      | HEAD_OF_HOUSEHOLD \<Rightarrow>
          [mkBracket 0 15700 (10 / 100), mkBracket 15700 59850 (12 / 100),
           mkBracket 59850 95350 (22 / 100), mkBracket 95350 182050 (24 / 100),
           mkBracket 182050 231250 (32 / 100), mkBracket 231250 609350 (35 / 100),
           mkBracket 609350 999999999 (37 / 100)]
      | QUALIFYING_WIDOW \<Rightarrow>
          [mkBracket 0 22000 (10 / 100), mkBracket 22000 89450 (12 / 100),
           mkBracket 89450 190750 (22 / 100), mkBracket 190750 364200 (24 / 100),
           mkBracket 364200 462500 (32 / 100), mkBracket 462500 693750 (35 / 100),
           mkBracket 693750 999999999 (37 / 100)])"

definition additionalMedicareThreshold2024 :: "FilingStatus \<Rightarrow> real" where
  "additionalMedicareThreshold2024 fs =
     (case fs of
        SINGLE \<Rightarrow> 200000
      | MARRIED_FILING_JOINTLY \<Rightarrow> 250000
      | MARRIED_FILING_SEPARATELY \<Rightarrow> 125000
      | HEAD_OF_HOUSEHOLD \<Rightarrow> 200000
      | QUALIFYING_WIDOW \<Rightarrow> 250000)"

definition childTaxCreditPhaseoutThreshold2024 :: "FilingStatus \<Rightarrow> real" where
  "childTaxCreditPhaseoutThreshold2024 fs =
     (case fs of
        SINGLE \<Rightarrow> 200000
      | MARRIED_FILING_JOINTLY \<Rightarrow> 400000
      | MARRIED_FILING_SEPARATELY \<Rightarrow> 200000
      | HEAD_OF_HOUSEHOLD \<Rightarrow> 200000
      | QUALIFYING_WIDOW \<Rightarrow> 400000)"

definition getTaxYear2024Configuration :: TaxLawConfiguration where
  "getTaxYear2024Configuration =
     \<lparr>TaxLawConfiguration.taxYear = 2024,
      standardDeductions = standardDeductions2024,
      taxBrackets = taxBrackets2024,
      socialSecurityWageBase = 168600,
      socialSecurityRate = 62 / 1000,
      medicareRate = 145 / 10000,
      additionalMedicareRate = 9 / 1000,
      additionalMedicareThreshold = additionalMedicareThreshold2024,
      personalExemption = 0,
      childTaxCreditAmount = 2000,
      childTaxCreditPhaseoutThreshold = childTaxCreditPhaseoutThreshold2024\<rparr>"

definition standardDeductions2023 :: "FilingStatus \<Rightarrow> real" where
  "standardDeductions2023 fs =
     (case fs of
        SINGLE \<Rightarrow> 13850
      | MARRIED_FILING_JOINTLY \<Rightarrow> 27700
      | MARRIED_FILING_SEPARATELY \<Rightarrow> 13850
      | HEAD_OF_HOUSEHOLD \<Rightarrow> 20800
      | QUALIFYING_WIDOW \<Rightarrow> 27700)"

definition taxBrackets2023 :: "FilingStatus \<Rightarrow> TaxBracket list" where
  "taxBrackets2023 fs =
     (case fs of
        SINGLE \<Rightarrow>
          [mkBracket 0 11000 (10 / 100), mkBracket 11000 44725 (12 / 100),
           mkBracket 44725 95375 (22 / 100), mkBracket 95375 182050 (24 / 100),
           mkBracket 182050 231250 (32 / 100), mkBracket 231250 578125 (35 / 100),
           mkBracket 578125 999999999 (37 / 100)]
      | MARRIED_FILING_JOINTLY \<Rightarrow>
          [mkBracket 0 22000 (10 / 100), mkBracket 22000 89450 (12 / 100),
           mkBracket 89450 190750 (22 / 100), mkBracket 190750 364200 (24 / 100),
           mkBracket 364200 462500 (32 / 100), mkBracket 462500 693750 (35 / 100),
           mkBracket 693750 999999999 (37 / 100)]
      | MARRIED_FILING_SEPARATELY \<Rightarrow>
          [mkBracket 0 11000 (10 / 100), mkBracket 11000 44725 (12 / 100),
           mkBracket 44725 95375 (22 / 100), mkBracket 95375 182100 (24 / 100),
           mkBracket 182100 231250 (32 / 100), mkBracket 231250 346875 (35 / 100),
           mkBracket 346875 999999999 (37 / 100)]
      | HEAD_OF_HOUSEHOLD \<Rightarrow>
          [mkBracket 0 15700 (10 / 100), mkBracket 15700 59850 (12 / 100),
           mkBracket 59850 95350 (22 / 100), mkBracket 95350 182050 (24 / 100),
           mkBracket 182050 231250 (32 / 100), mkBracket 231250 578100 (35 / 100),
           mkBracket 578100 999999999 (37 / 100)]
      | QUALIFYING_WIDOW \<Rightarrow>
          [mkBracket 0 22000 (10 / 100), mkBracket 22000 89450 (12 / 100),
           mkBracket 89450 190750 (22 / 100), mkBracket 190750 364200 (24 / 100),
           mkBracket 364200 462500 (32 / 100), mkBracket 462500 693750 (35 / 100),
           mkBracket 693750 999999999 (37 / 100)])"

definition getTaxYear2023Configuration :: TaxLawConfiguration where
  "getTaxYear2023Configuration =
     \<lparr>TaxLawConfiguration.taxYear = 2023,
      standardDeductions = standardDeductions2023,
      taxBrackets = taxBrackets2023,
      socialSecurityWageBase = 160200,
      socialSecurityRate = 62 / 1000,
      medicareRate = 145 / 10000,
      additionalMedicareRate = 9 / 1000,
      additionalMedicareThreshold = additionalMedicareThreshold2024,
      personalExemption = 0,
      childTaxCreditAmount = 2000,
      childTaxCreditPhaseoutThreshold = childTaxCreditPhaseoutThreshold2024\<rparr>"

text \<open>
  The 2023 configuration repeats the Medicare thresholds and the phase-out thresholds of
  2024, value for value. The loop of \<^verbatim>\<open>initializeDefaultConfigurations\<close> ignores the
  result of each update.
\<close>

definition initializeDefaultConfigurations :: "TaxLawService \<Rightarrow> TaxLawService" where
  "initializeDefaultConfigurations svc =
     fold (\<lambda>config s. snd (updateTaxLawConfiguration s config))
       [getTaxYear2024Configuration, getTaxYear2023Configuration] svc"

section \<open>TaxCalculationService: the calculator\<close>

text \<open>
  A parameter or local variable of the source whose name is also a field of a record is
  shortened (\<open>agi\<close> for \<^verbatim>\<open>adjustedGrossIncome\<close>, \<open>tinc\<close> for \<^verbatim>\<open>taxableIncome\<close>,
  \<open>gross\<close> for \<^verbatim>\<open>grossIncome\<close>, \<open>total\<close> for a running total). \<^verbatim>\<open>reduce\<close> with a start
  value is \<open>fold\<close>.
\<close>

definition calculateGrossIncome :: "IncomeData \<Rightarrow> real" where
  "calculateGrossIncome inc =
     (let total = 0;
          total = total + fold (\<lambda>wage sum. sum + WageIncome.wages wage) (IncomeData.wages inc) 0;
          total = total + fold (\<lambda>se sum. sum + netProfit se) (selfEmployment inc) 0;
          total = total + fold (\<lambda>inv sum. sum + InvestmentIncome.taxableAmount inv) (investment inc) 0;
          total = total + fold (\<lambda>ret sum. sum + RetirementIncome.taxableAmount ret) (retirement inc) 0;
          total = total + fold (\<lambda>oth sum. sum + OtherIncome.amount oth)
                            (filter taxable (other inc)) 0
      in total)"

definition calculateAdjustedGrossIncome :: "real \<Rightarrow> DeductionData \<Rightarrow> real" where
  "calculateAdjustedGrossIncome gross ded =
     (let adjustmentSum = fold (\<lambda>adj sum. sum + IncomeAdjustment.amount adj) (adjustments ded) 0
      in max 0 (gross - adjustmentSum))"

definition calculateTaxableIncome ::
  "real \<Rightarrow> DeductionData \<Rightarrow> TaxLawConfiguration \<Rightarrow> FilingStatus \<Rightarrow> real" where
  "calculateTaxableIncome agi ded taxLawConfig fs =
     (let standardDeduction = standardDeductions taxLawConfig fs;
          itemized = totalItemizedDeductions ded;
          deductionAmount = max standardDeduction itemized
      in max 0 (agi - deductionAmount))"

text \<open>
  The loop of \<^verbatim>\<open>calculateFederalTax\<close> over the brackets, with its two variables \<open>tax\<close> and
  \<open>remainingIncome\<close> and its two \<^verbatim>\<open>break\<close> statements.
\<close>

fun bracketWalk :: "TaxBracket list \<Rightarrow> real \<Rightarrow> real \<Rightarrow> real" where
  "bracketWalk [] tax remainingIncome = tax"
| "bracketWalk (bracket # brackets) tax remainingIncome =
     (if remainingIncome \<le> 0 then tax
      else
        let taxableAtThisBracket = min remainingIncome (bmax bracket - bmin bracket);
            tax = tax + taxableAtThisBracket * rate bracket;
            remainingIncome = remainingIncome - taxableAtThisBracket
        in if remainingIncome \<le> 0 then tax else bracketWalk brackets tax remainingIncome)"

definition calculateFederalTax :: "real \<Rightarrow> TaxLawConfiguration \<Rightarrow> FilingStatus \<Rightarrow> real" where
  "calculateFederalTax tinc taxLawConfig fs =
     bracketWalk (taxBrackets taxLawConfig fs) 0 tinc"

text \<open>The loop of \<^verbatim>\<open>calculateMarginalTaxRate\<close>: the rate of the first bracket that holds the income.\<close>

fun bracketSearch :: "TaxBracket list \<Rightarrow> real \<Rightarrow> real option" where
  "bracketSearch [] tinc = None"
| "bracketSearch (bracket # brackets) tinc =
     (if tinc \<ge> bmin bracket \<and> tinc < bmax bracket then Some (rate bracket)
      else bracketSearch brackets tinc)"

text \<open>
  After the loop the source reads \<^verbatim>\<open>brackets[brackets.length - 1].rate\<close>, which throws
  a TypeError on an empty list.
\<close>

definition calculateMarginalTaxRate ::
  "real \<Rightarrow> TaxLawConfiguration \<Rightarrow> FilingStatus \<Rightarrow> exn + real" where
  "calculateMarginalTaxRate tinc taxLawConfig fs =
     (let brackets = taxBrackets taxLawConfig fs
      in case bracketSearch brackets tinc of
           Some r \<Rightarrow> Inr r
         | None \<Rightarrow> (if brackets = [] then Inl TypeError else Inr (rate (last brackets))))"

definition calculateChildTaxCredit ::
  "real \<Rightarrow> real \<Rightarrow> TaxLawConfiguration \<Rightarrow> FilingStatus \<Rightarrow> real" where
  "calculateChildTaxCredit baseCredit agi taxLawConfig fs =
     (if baseCredit = 0 then 0
      else
        let phaseoutThreshold = childTaxCreditPhaseoutThreshold taxLawConfig fs
        in if agi \<le> phaseoutThreshold then baseCredit
           else
             let excessIncome = agi - phaseoutThreshold;
                 phaseoutAmount = Math_ceil (excessIncome / 1000) * 50
             in max 0 (baseCredit - phaseoutAmount))"

definition calculateTotalCredits ::
  "CreditData \<Rightarrow> real \<Rightarrow> TaxLawConfiguration \<Rightarrow> FilingStatus \<Rightarrow> real" where
  "calculateTotalCredits cr agi taxLawConfig fs =
     (let total = 0;
          child = calculateChildTaxCredit (childTaxCredit cr) agi taxLawConfig fs;
          total = total + child;
          total = total + earnedIncomeCredit cr;
          total = total + educationCredits cr;
          total = total + retirementSavingsCredit cr;
          total = total + fold (\<lambda>credit sum. sum + OtherCredit.amount credit) (otherCredits cr) 0
      in total)"

definition calculateSelfEmploymentTax :: "IncomeData \<Rightarrow> TaxLawConfiguration \<Rightarrow> real" where
  "calculateSelfEmploymentTax inc taxLawConfig =
     (let selfEmploymentIncome = fold (\<lambda>se sum. sum + netProfit se) (selfEmployment inc) 0
      in if selfEmploymentIncome \<le> 400 then 0
         else
           let seIncomeForTax = selfEmploymentIncome * (9235 / 10000);
               socialSecurityTax =
                 min seIncomeForTax (socialSecurityWageBase taxLawConfig) * socialSecurityRate taxLawConfig * 2;
               medicareTax = seIncomeForTax * medicareRate taxLawConfig * 2;
               additionalMedicareTax = 0
           in socialSecurityTax + medicareTax + additionalMedicareTax)"

definition calculateTotalWithholding :: "IncomeData \<Rightarrow> real" where
  "calculateTotalWithholding inc =
     (let total = 0;
          total = total
            + fold (\<lambda>wage sum. sum + WageIncome.federalTaxWithheld wage) (IncomeData.wages inc) 0;
          total = total
            + fold (\<lambda>ret sum. sum + RetirementIncome.federalTaxWithheld ret) (retirement inc) 0
      in total)"

text \<open>
  The two rounding functions are exact here: the nearest multiple of \<open>1/100\<close> or of
  \<open>1/10000\<close>, the larger one at a tie. The runtime rounds the binary product
  \<^verbatim>\<open>value * 100\<close> or \<^verbatim>\<open>value * 10000\<close>, so for a value at or next to a tie it can return the
  other neighbour (for 163 / 20000 it returns 0.0081 where the exact rounding gives
  0.0082). The properties below do not rest on which neighbour is returned at a tie.
\<close>

definition roundToTwoDec :: "real \<Rightarrow> real" where
  "roundToTwoDec v = Math_round (v * 100) / 100"

definition roundToFourDec :: "real \<Rightarrow> real" where
  "roundToFourDec v = Math_round (v * 10000) / 10000"

text \<open>
  The body of the \<^verbatim>\<open>try\<close> block of \<^verbatim>\<open>calculateTax\<close> once the configuration is there
  (lines 46 to 85). The only statement that can throw is the read of the marginal rate.
  The quotient of line 67 is taken by \<open>js_divide\<close> behind the guard of that line; a
  quotient that is not finite would end the steps with \<open>NonFinite\<close>.
\<close>

definition calculateTaxSteps :: "TaxReturn \<Rightarrow> TaxLawConfiguration \<Rightarrow> exn + TaxCalculation" where
  "calculateTaxSteps taxReturn taxLawConfig =
     (let gross = calculateGrossIncome (income taxReturn);
          agi = calculateAdjustedGrossIncome gross (deductions taxReturn);
          tinc = calculateTaxableIncome agi (deductions taxReturn) taxLawConfig (filingStatus taxReturn);
          beforeCredits = calculateFederalTax tinc taxLawConfig (filingStatus taxReturn);
          creditSum = calculateTotalCredits (credits taxReturn) agi taxLawConfig (filingStatus taxReturn);
          afterCredits = max 0 (beforeCredits - creditSum);
          seTax = calculateSelfEmploymentTax (income taxReturn) taxLawConfig;
          liability = afterCredits + seTax;
          withholding = calculateTotalWithholding (income taxReturn);
          estimated = 0;
          refund = (if withholding + estimated > liability then withholding + estimated - liability else 0);
          owed = (if withholding + estimated > liability then 0 else liability - withholding - estimated);
          effective = (if agi > 0 then js_divide liability agi else Inr 0)
      in case effective of
           Inl e \<Rightarrow> Inl e
         | Inr effectiveRate \<Rightarrow>
             (case calculateMarginalTaxRate tinc taxLawConfig (filingStatus taxReturn) of
                Inl e \<Rightarrow> Inl e
              | Inr marginal \<Rightarrow>
                  Inr \<lparr>grossIncome = roundToTwoDec gross,
                       adjustedGrossIncome = roundToTwoDec agi,
                       taxableIncome = roundToTwoDec tinc,
                       federalTaxBeforeCredits = roundToTwoDec beforeCredits,
                       totalCredits = roundToTwoDec creditSum,
                       federalTaxAfterCredits = roundToTwoDec afterCredits,
                       selfEmploymentTax = roundToTwoDec seTax,
                       totalTaxLiability = roundToTwoDec liability,
                       totalWithholding = roundToTwoDec withholding,
                       estimatedPayments = roundToTwoDec estimated,
                       refundAmount = roundToTwoDec refund,
                       amountOwed = roundToTwoDec owed,
                       effectiveTaxRate = roundToFourDec effectiveRate,
                       marginalTaxRate = roundToFourDec marginal\<rparr>))"

text \<open>
  \<^verbatim>\<open>calculateTax\<close>: the lookup of the configuration, the answer for \<^verbatim>\<open>null\<close>, the steps,
  and the \<^verbatim>\<open>catch\<close> block. The second component is the service after the call, whose
  cache the lookup may have filled.
\<close>

definition calculateTax ::
  "TaxLawService \<Rightarrow> TaxReturn \<Rightarrow> TaxCalculation ApiResponse \<times> TaxLawService" where
  "calculateTax svc taxReturn =
     (case getTaxLawConfiguration svc (TaxReturn.taxYear taxReturn) of
        (None, svc') \<Rightarrow>
          (Inl \<lparr>code = INTERNAL_ERROR,
                message = ''Tax law configuration not found for year ''
                            @ nat_digits (TaxReturn.taxYear taxReturn)\<rparr>, svc')
      | (Some taxLawConfig, svc') \<Rightarrow>
          (case calculateTaxSteps taxReturn taxLawConfig of
             Inr calculation \<Rightarrow> (Inr calculation, svc')
           | Inl error \<Rightarrow>
               (Inl \<lparr>code = INTERNAL_ERROR,
                     message = ''Tax calculation failed due to internal error''\<rparr>, svc')))"

definition calculateStandardDeduction ::
  "TaxLawService \<Rightarrow> nat \<Rightarrow> FilingStatus \<Rightarrow> real \<times> TaxLawService" where
  "calculateStandardDeduction svc y fs =
     (case getTaxLawConfiguration svc y of
        (None, svc') \<Rightarrow> (0, svc')
      | (Some taxLawConfig, svc') \<Rightarrow> (standardDeductions taxLawConfig fs, svc'))"

record ItemizedVsStandard =
  useItemized :: bool
  deductionAmount :: real
  savings :: real

definition calculateItemizedVsStandard ::
  "TaxLawService \<Rightarrow> nat \<Rightarrow> FilingStatus \<Rightarrow> real \<Rightarrow> ItemizedVsStandard \<times> TaxLawService" where
  "calculateItemizedVsStandard svc y fs itemized =
     (case calculateStandardDeduction svc y fs of
        (standardDeduction, svc') \<Rightarrow>
          (let use = itemized > standardDeduction
           in (\<lparr>useItemized = use,
                deductionAmount = (if use then itemized else standardDeduction),
                savings = (if use then itemized - standardDeduction else 0)\<rparr>, svc')))"

section \<open>Example inputs\<close>

definition emptyCalculation :: TaxCalculation where
  "emptyCalculation =
     \<lparr>grossIncome = 0, adjustedGrossIncome = 0, taxableIncome = 0, federalTaxBeforeCredits = 0,
      totalCredits = 0, federalTaxAfterCredits = 0, selfEmploymentTax = 0, totalTaxLiability = 0,
      totalWithholding = 0, estimatedPayments = 0, refundAmount = 0, amountOwed = 0,
      effectiveTaxRate = 0, marginalTaxRate = 0\<rparr>"

definition noCredits :: CreditData where
  "noCredits =
     \<lparr>childTaxCredit = 0, earnedIncomeCredit = 0, educationCredits = 0,
      retirementSavingsCredit = 0, otherCredits = []\<rparr>"

definition noDeductions :: DeductionData where
  "noDeductions = \<lparr>itemizedDeductions = [], totalItemizedDeductions = 0, adjustments = []\<rparr>"

text \<open>A single filer of 2024 with one W-2: wages 60000, federal tax withheld 5000.\<close>

definition wageEarner :: TaxReturn where
  "wageEarner =
     \<lparr>id = ''r1'', TaxReturn.taxYear = 2024, filingStatus = SINGLE,
      income = \<lparr>IncomeData.wages = [\<lparr>WageIncome.wages = 60000, federalTaxWithheld = 5000\<rparr>],
                selfEmployment = [], investment = [], retirement = [], other = []\<rparr>,
      deductions = noDeductions, credits = noCredits, calculations = emptyCalculation\<rparr>"

text \<open>A service with an empty cache over an answering, empty store, and the same after start-up.\<close>

definition freshService :: TaxLawService where
  "freshService = \<lparr>db = \<lparr>available = True, tax_law_configurations = Map.empty\<rparr>, configCache = Map.empty\<rparr>"

definition seededService :: TaxLawService where
  "seededService = initializeDefaultConfigurations freshService"

section \<open>DeductionOptimizationService: the advisor\<close>

definition calculateTaxSavings :: "real \<Rightarrow> real \<Rightarrow> real" where
  "calculateTaxSavings amt marginal = amt * marginal"

text \<open>
  Every rule reads the adjusted gross income and the marginal rate stored in
  \<^verbatim>\<open>taxReturn.calculations\<close>, starts from an empty list and pushes onto it. The medical
  rule, the rule for state and local taxes and the charitable rule each filter the
  itemized deductions by a category and add up the amounts; \<open>currentItemized\<close> is that
  expression.
\<close>

definition currentItemized :: "TaxReturn \<Rightarrow> ItemizedDeductionCategory \<Rightarrow> real" where
  "currentItemized taxReturn c =
     fold (\<lambda>d sum. sum + ItemizedDeduction.amount d)
       (filter (\<lambda>d. ItemizedDeduction.category d = c) (itemizedDeductions (deductions taxReturn))) 0"

definition analyzeMedicalDeductions :: "TaxReturn \<Rightarrow> DeductionRecommendation list" where
  "analyzeMedicalDeductions taxReturn =
     (let agi = adjustedGrossIncome (calculations taxReturn);
          medicalThreshold = agi * (75 / 1000);
          currentMedicalDeductions = currentItemized taxReturn MEDICAL_DENTAL;
          recs = [];
          recs =
            (if currentMedicalDeductions < medicalThreshold then
               let neededAmount = medicalThreshold - currentMedicalDeductions + 1
               in recs @
                  [\<lparr>category = Itemized MEDICAL_DENTAL,
                    description = ''You need $'' @ toFixed2 neededAmount
                      @ '' more in medical expenses to exceed the 7.5% AGI threshold ($''
                      @ toFixed2 medicalThreshold @ '')'',
                    estimatedAmount = neededAmount,
                    confidence = 8 / 10,
                    requiredDocuments = [''Medical bills'', ''Insurance statements'', ''Prescription receipts''],
                    potentialSavings =
                      calculateTaxSavings neededAmount (marginalTaxRate (calculations taxReturn))\<rparr>]
             else recs);
          recs =
            (if agi > 50000 then
               recs @
               [\<lparr>category = Itemized MEDICAL_DENTAL,
                 description = ''Consider deducting health insurance premiums if self-employed or not covered by employer'',
                 estimatedAmount = 6000,
                 confidence = 6 / 10,
                 requiredDocuments = [''Health insurance premium statements''],
                 potentialSavings = calculateTaxSavings 6000 (marginalTaxRate (calculations taxReturn))\<rparr>]
             else recs)
      in recs)"

definition analyzeStateLocalTaxDeductions :: "TaxReturn \<Rightarrow> DeductionRecommendation list" where
  "analyzeStateLocalTaxDeductions taxReturn =
     (let saltCap = 10000;
          currentSALT = currentItemized taxReturn STATE_LOCAL_TAXES;
          recs = [];
          recs =
            (if currentSALT < saltCap then
               let remainingCapacity = saltCap - currentSALT
               in recs @
                  [\<lparr>category = Itemized STATE_LOCAL_TAXES,
                    description = ''You can deduct up to $'' @ toFixed2 remainingCapacity
                      @ '' more in state and local taxes (property taxes, state income taxes)'',
                    estimatedAmount = min remainingCapacity 3000,
                    confidence = 7 / 10,
                    requiredDocuments =
                      [''Property tax statements'', ''State tax returns'', ''Vehicle registration fees''],
                    potentialSavings =
                      calculateTaxSavings (min remainingCapacity 3000)
                        (marginalTaxRate (calculations taxReturn))\<rparr>]
             else recs)
      in recs)"

definition analyzeMortgageInterestDeductions :: "TaxReturn \<Rightarrow> DeductionRecommendation list" where
  "analyzeMortgageInterestDeductions taxReturn =
     (let hasMortgageInterest =
            list_ex (\<lambda>d. ItemizedDeduction.category d = MORTGAGE_INTEREST)
              (itemizedDeductions (deductions taxReturn));
          recs = [];
          recs =
            (if \<not> hasMortgageInterest \<and> adjustedGrossIncome (calculations taxReturn) > 40000 then
               recs @
               [\<lparr>category = Itemized MORTGAGE_INTEREST,
                 description = ''If you have a mortgage, you may be able to deduct mortgage interest payments'',
                 estimatedAmount = 8000,
                 confidence = 5 / 10,
                 requiredDocuments = [''Form 1098 from mortgage lender'', ''Mortgage statements''],
                 potentialSavings = calculateTaxSavings 8000 (marginalTaxRate (calculations taxReturn))\<rparr>]
             else recs)
      in recs)"

definition analyzeCharitableDeductions :: "TaxReturn \<Rightarrow> DeductionRecommendation list" where
  "analyzeCharitableDeductions taxReturn =
     (let agi = adjustedGrossIncome (calculations taxReturn);
          currentCharitable = currentItemized taxReturn CHARITABLE_CONTRIBUTIONS;
          suggestedCharitableAmount = min (agi * (2 / 100)) 2000;
          recs = [];
          recs =
            (if currentCharitable < suggestedCharitableAmount then
               let additionalAmount = suggestedCharitableAmount - currentCharitable
               in recs @
                  [\<lparr>category = Itemized CHARITABLE_CONTRIBUTIONS,
                    description = ''Consider charitable contributions. You could potentially deduct up to $''
                      @ toFixed2 additionalAmount @ '' more'',
                    estimatedAmount = additionalAmount,
                    confidence = 4 / 10,
                    requiredDocuments = [''Donation receipts'', ''Acknowledgment letters from charities''],
                    potentialSavings =
                      calculateTaxSavings additionalAmount (marginalTaxRate (calculations taxReturn))\<rparr>]
             else recs)
      in recs)"

definition analyzeBusinessDeductions :: "TaxReturn \<Rightarrow> DeductionRecommendation list" where
  "analyzeBusinessDeductions taxReturn =
     (let hasSelfEmployment = length (selfEmployment (income taxReturn)) > 0;
          recs = [];
          recs =
            (if hasSelfEmployment then
               let businessRecommendations =
                     [\<lparr>category = Business OFFICE_EXPENSES,
                       description = ''Home office expenses if you use part of your home exclusively for business'',
                       estimatedAmount = 1200,
                       confidence = 6 / 10,
                       requiredDocuments =
                         [''Home office measurements'', ''Utility bills'', ''Rent/mortgage statements''],
                       potentialSavings = calculateTaxSavings 1200 (marginalTaxRate (calculations taxReturn))\<rparr>,
                      \<lparr>category = Business VEHICLE,
                       description = ''Business use of vehicle - mileage or actual expenses'',
                       estimatedAmount = 2000,
                       confidence = 7 / 10,
                       requiredDocuments = [''Mileage log'', ''Vehicle expense receipts''],
                       potentialSavings = calculateTaxSavings 2000 (marginalTaxRate (calculations taxReturn))\<rparr>,
                      \<lparr>category = Business PROFESSIONAL_SERVICES,
                       description = ''Professional development, training, and business-related education'',
                       estimatedAmount = 800,
                       confidence = 5 / 10,
                       requiredDocuments = [''Training receipts'', ''Professional membership fees''],
                       potentialSavings = calculateTaxSavings 800 (marginalTaxRate (calculations taxReturn))\<rparr>]
               in recs @ businessRecommendations
             else recs)
      in recs)"

definition analyzeEducationDeductions :: "TaxReturn \<Rightarrow> DeductionRecommendation list" where
  "analyzeEducationDeductions taxReturn =
     (let agi = adjustedGrossIncome (calculations taxReturn);
          recs = [];
          recs =
            (if agi < 85000 then
               recs @
               [\<lparr>category = Itemized MISCELLANEOUS,
                 description = ''Student loan interest payments (up to $2,500 per year)'',
                 estimatedAmount = 1500,
                 confidence = 4 / 10,
                 requiredDocuments = [''Form 1098-E from loan servicer''],
                 potentialSavings = calculateTaxSavings 1500 (marginalTaxRate (calculations taxReturn))\<rparr>]
             else recs);
          recs =
            (if agi < 80000 then
               recs @
               [\<lparr>category = Itemized MISCELLANEOUS,
                 description = ''Tuition and fees for higher education'',
                 estimatedAmount = 4000,
                 confidence = 3 / 10,
                 requiredDocuments = [''Form 1098-T from educational institution'', ''Tuition receipts''],
                 potentialSavings = calculateTaxSavings 4000 (marginalTaxRate (calculations taxReturn))\<rparr>]
             else recs)
      in recs)"

definition analyzeRetirementDeductions :: "TaxReturn \<Rightarrow> DeductionRecommendation list" where
  "analyzeRetirementDeductions taxReturn =
     (let agi = adjustedGrossIncome (calculations taxReturn);
          iraContributionLimit = 6500;
          recs = [];
          recs =
            recs @
            [\<lparr>category = Itemized MISCELLANEOUS,
              description = ''Traditional IRA contribution (up to $'' @ nat_digits iraContributionLimit
                @ '' for 2024)'',
              estimatedAmount = real iraContributionLimit,
              confidence = 8 / 10,
              requiredDocuments = [''IRA contribution statements''],
              potentialSavings =
                calculateTaxSavings (real iraContributionLimit) (marginalTaxRate (calculations taxReturn))\<rparr>];
          recs =
            (if agi < 100000 then
               recs @
               [\<lparr>category = Itemized MISCELLANEOUS,
                 description = ''Health Savings Account (HSA) contribution if you have a high-deductible health plan'',
                 estimatedAmount = 4150,
                 confidence = 5 / 10,
                 requiredDocuments =
                   [''HSA contribution statements'', ''High-deductible health plan documentation''],
                 potentialSavings = calculateTaxSavings 4150 (marginalTaxRate (calculations taxReturn))\<rparr>]
             else recs)
      in recs)"

text \<open>
  \<^verbatim>\<open>Array.prototype.sort\<close> with a comparison function is a stable sort (ECMAScript 2019):
  elements that compare equal keep their order. The model is the insertion sort that
  puts an element in front of the first later element it does not compare greater than.
\<close>

fun sortInsert :: "('a \<Rightarrow> 'a \<Rightarrow> real) \<Rightarrow> 'a \<Rightarrow> 'a list \<Rightarrow> 'a list" where
  "sortInsert cmp x [] = [x]"
| "sortInsert cmp x (y # ys) = (if cmp x y \<le> 0 then x # y # ys else y # sortInsert cmp x ys)"

definition Array_sort :: "('a \<Rightarrow> 'a \<Rightarrow> real) \<Rightarrow> 'a list \<Rightarrow> 'a list" where
  "Array_sort cmp xs = foldr (sortInsert cmp) xs []"

text \<open>The recommendations in the order in which the rules push them, before the sort.\<close>

definition ruleRecommendations :: "TaxReturn \<Rightarrow> DeductionRecommendation list" where
  "ruleRecommendations taxReturn =
     analyzeMedicalDeductions taxReturn
     @ analyzeStateLocalTaxDeductions taxReturn
     @ analyzeMortgageInterestDeductions taxReturn
     @ analyzeCharitableDeductions taxReturn
     @ analyzeBusinessDeductions taxReturn
     @ analyzeEducationDeductions taxReturn
     @ analyzeRetirementDeductions taxReturn"

definition generateDeductionRecommendations :: "TaxReturn \<Rightarrow> DeductionRecommendation list" where
  "generateDeductionRecommendations taxReturn =
     Array_sort (\<lambda>a b. potentialSavings b - potentialSavings a) (ruleRecommendations taxReturn)"

record StandardVsItemized =
  useItemized :: bool
  standardAmount :: real
  itemizedAmount :: real
  savings :: real

record Optimization =
  recommendations :: "DeductionRecommendation list"
  standardVsItemized :: StandardVsItemized
  potentialSavings :: real

text \<open>
  No statement of the \<^verbatim>\<open>try\<close> block of \<^verbatim>\<open>optimizeDeductions\<close> throws on a well-typed
  return, so the answer of the \<^verbatim>\<open>catch\<close> block does not occur in the model.
\<close>

definition optimizeDeductions ::
  "TaxLawService \<Rightarrow> TaxReturn \<Rightarrow> Optimization ApiResponse \<times> TaxLawService" where
  "optimizeDeductions svc taxReturn =
     (let recs = generateDeductionRecommendations taxReturn;
          (cmp, svc1) =
            calculateItemizedVsStandard svc (TaxReturn.taxYear taxReturn) (filingStatus taxReturn)
              (totalItemizedDeductions (deductions taxReturn));
          total = fold (\<lambda>rec sum. sum + DeductionRecommendation.potentialSavings rec) recs 0;
          (std, svc2) =
            calculateStandardDeduction svc1 (TaxReturn.taxYear taxReturn) (filingStatus taxReturn)
      in (Inr \<lparr>recommendations = recs,
               standardVsItemized =
                 \<lparr>useItemized = ItemizedVsStandard.useItemized cmp,
                  standardAmount = std,
                  itemizedAmount = totalItemizedDeductions (deductions taxReturn),
                  savings = ItemizedVsStandard.savings cmp\<rparr>,
               potentialSavings = total\<rparr>, svc2))"

subsection \<open>Objects and references\<close>

text \<open>
  \<^verbatim>\<open>analyzeDeductionStrategy\<close> copies objects and writes to a field of the copy, so here a
  tax return is an object in a store. A reference is an index into the store and a new
  object goes to its end. A return object holds its \<^verbatim>\<open>deductions\<close> by reference; its
  other nested objects are shared by the copy and written by nobody, and are kept by
  value.
\<close>

type_synonym ref = nat

record TaxReturnObject =
  idOf :: string
  taxYearOf :: nat
  filingStatusOf :: FilingStatus
  incomeOf :: IncomeData
  deductionsRef :: ref
  creditsOf :: CreditData
  calculationsOf :: TaxCalculation

datatype object =
    ReturnObject TaxReturnObject
  | DeductionsObject DeductionData

type_synonym store = "object list"

definition load :: "store \<Rightarrow> ref \<Rightarrow> object option" where
  "load h r = (if r < length h then Some (h ! r) else None)"

definition alloc :: "store \<Rightarrow> object \<Rightarrow> ref \<times> store" where
  "alloc h ob = (length h, h @ [ob])"

definition put :: "store \<Rightarrow> ref \<Rightarrow> object \<Rightarrow> store" where
  "put h r ob = h[r := ob]"

text \<open>The tax return that a reference stands for, as the calculator reads it.\<close>

definition readTaxReturn :: "store \<Rightarrow> ref \<Rightarrow> TaxReturn option" where
  "readTaxReturn h r =
     (case load h r of
        Some (ReturnObject ob) \<Rightarrow>
          (case load h (deductionsRef ob) of
             Some (DeductionsObject d) \<Rightarrow>
               Some \<lparr>id = idOf ob,
                     TaxReturn.taxYear = taxYearOf ob,
                     filingStatus = filingStatusOf ob,
                     income = incomeOf ob,
                     deductions = d,
                     credits = creditsOf ob,
                     calculations = calculationsOf ob\<rparr>
           | _ \<Rightarrow> None)
      | _ \<Rightarrow> None)"

text \<open>\<^verbatim>\<open>const modifiedTaxReturn = { ...taxReturn }\<close>\<close>

definition spreadTaxReturn :: "store \<Rightarrow> ref \<Rightarrow> (ref \<times> store) option" where
  "spreadTaxReturn h r =
     (case load h r of
        Some (ReturnObject ob) \<Rightarrow> Some (alloc h (ReturnObject ob))
      | _ \<Rightarrow> None)"

text \<open>\<^verbatim>\<open>modifiedTaxReturn.deductions = { ...taxReturn.deductions }\<close>\<close>

definition assignSpreadDeductions :: "store \<Rightarrow> ref \<Rightarrow> ref \<Rightarrow> store option" where
  "assignSpreadDeductions h m r =
     (case (load h m, load h r) of
        (Some (ReturnObject mob), Some (ReturnObject ob)) \<Rightarrow>
          (case load h (deductionsRef ob) of
             Some (DeductionsObject d) \<Rightarrow>
               (let (c, h1) = alloc h (DeductionsObject d)
                in Some (put h1 m (ReturnObject (mob\<lparr>deductionsRef := c\<rparr>))))
           | _ \<Rightarrow> None)
      | _ \<Rightarrow> None)"

text \<open>\<^verbatim>\<open>modifiedTaxReturn.deductions.totalItemizedDeductions += additionalItemizedAmount\<close>\<close>

definition addToTotalItemized :: "store \<Rightarrow> ref \<Rightarrow> real \<Rightarrow> store option" where
  "addToTotalItemized h m additional =
     (case load h m of
        Some (ReturnObject mob) \<Rightarrow>
          (case load h (deductionsRef mob) of
             Some (DeductionsObject d) \<Rightarrow>
               Some (put h (deductionsRef mob)
                      (DeductionsObject
                         (d\<lparr>totalItemizedDeductions := totalItemizedDeductions d + additional\<rparr>)))
           | _ \<Rightarrow> None)
      | _ \<Rightarrow> None)"

record ProposedDeduction =
  category :: string
  amount :: real

datatype Verdict = itemize | standard

record Strategy =
  currentTax :: real
  newTax :: real
  savings :: real
  recommendation :: Verdict

text \<open>\<^verbatim>\<open>calculation.data?.totalTaxLiability || 0\<close>\<close>

definition liabilityOrZero :: "TaxCalculation ApiResponse \<Rightarrow> real" where
  "liabilityOrZero response = (case response of Inr calculation \<Rightarrow> totalTaxLiability calculation | Inl e \<Rightarrow> 0)"

text \<open>
  The result is the answer, the service and the store after the call. A reference that
  does not lead to a return object with a deductions object is a TypeError of the
  runtime; the store is then as it was when the error arose.
\<close>

definition analyzeDeductionStrategy ::
  "TaxLawService \<Rightarrow> store \<Rightarrow> ref \<Rightarrow> ProposedDeduction list
     \<Rightarrow> (exn + Strategy) \<times> TaxLawService \<times> store" where
  "analyzeDeductionStrategy svc h r proposedDeductions =
     (case readTaxReturn h r of
        None \<Rightarrow> (Inl TypeError, svc, h)
      | Some taxReturn \<Rightarrow>
          (let (currentCalculation, svc1) = calculateTax svc taxReturn;
               current = liabilityOrZero currentCalculation
           in case spreadTaxReturn h r of
                None \<Rightarrow> (Inl TypeError, svc1, h)
              | Some (m, h1) \<Rightarrow>
                  (case assignSpreadDeductions h1 m r of
                     None \<Rightarrow> (Inl TypeError, svc1, h1)
                   | Some h2 \<Rightarrow>
                       (let additionalItemizedAmount =
                              fold (\<lambda>d sum. sum + ProposedDeduction.amount d) proposedDeductions 0
                        in case addToTotalItemized h2 m additionalItemizedAmount of
                             None \<Rightarrow> (Inl TypeError, svc1, h2)
                           | Some h3 \<Rightarrow>
                               (case (readTaxReturn h3 m, readTaxReturn h3 r) of
                                  (Some modifiedTaxReturn, Some taxReturn') \<Rightarrow>
                                    (let (newCalculation, svc2) = calculateTax svc1 modifiedTaxReturn;
                                         new = liabilityOrZero newCalculation;
                                         (standardDeduction, svc3) =
                                           calculateStandardDeduction svc2 (TaxReturn.taxYear taxReturn')
                                             (filingStatus taxReturn')
                                     in (Inr \<lparr>currentTax = current,
                                              newTax = new,
                                              savings = current - new,
                                              recommendation =
                                                (if totalItemizedDeductions (deductions modifiedTaxReturn)
                                                      > standardDeduction
                                                 then itemize else standard)\<rparr>, svc3, h3))
                                | _ \<Rightarrow> (Inl TypeError, svc1, h3))))))"

section \<open>Quantities and conditions that the properties speak about\<close>

text \<open>
  The invariant that the data model asks of the bracket list of a filing status: the first
  bracket starts at 0, each bracket ends where the next one starts, every bracket is
  ascending, and the rates do not decrease. It is a condition on configurations, which no
  function of the source checks.
\<close>

fun contiguous :: "TaxBracket list \<Rightarrow> bool" where
  "contiguous (b # c # bs) = (bmax b = bmin c \<and> contiguous (c # bs))"
| "contiguous bs = True"

definition bracketInvariant :: "TaxBracket list \<Rightarrow> bool" where
  "bracketInvariant bs =
     (bs \<noteq> [] \<and> bmin (hd bs) = 0 \<and> contiguous bs
      \<and> list_all (\<lambda>b. bmin b < bmax b) bs \<and> sorted (map rate bs))"

text \<open>A bracket holds an income that lies in its half-open range, the test of line 189.\<close>

definition holds :: "real \<Rightarrow> TaxBracket \<Rightarrow> bool" where
  "holds x b = (bmin b \<le> x \<and> x < bmax b)"


text \<open>
  The values of the local variables \<^verbatim>\<open>adjustedGrossIncome\<close> (line 48) and
  \<^verbatim>\<open>totalTaxLiability\<close> (line 54) of \<^verbatim>\<open>calculateTax\<close>, before any rounding.
\<close>

definition unroundedAGI :: "TaxReturn \<Rightarrow> real" where
  "unroundedAGI taxReturn =
     calculateAdjustedGrossIncome (calculateGrossIncome (income taxReturn)) (deductions taxReturn)"

definition unroundedLiability :: "TaxReturn \<Rightarrow> TaxLawConfiguration \<Rightarrow> real" where
  "unroundedLiability taxReturn taxLawConfig =
     max 0 (calculateFederalTax
              (calculateTaxableIncome (unroundedAGI taxReturn) (deductions taxReturn) taxLawConfig
                 (filingStatus taxReturn))
              taxLawConfig (filingStatus taxReturn)
            - calculateTotalCredits (credits taxReturn) (unroundedAGI taxReturn) taxLawConfig
                (filingStatus taxReturn))
     + calculateSelfEmploymentTax (income taxReturn) taxLawConfig"

text \<open>The answer of \<^verbatim>\<open>calculateTax\<close> when the lookup of the configuration gives \<^verbatim>\<open>null\<close>.\<close>

definition notFoundError :: "nat \<Rightarrow> ApiError" where
  "notFoundError y =
     \<lparr>code = INTERNAL_ERROR, message = ''Tax law configuration not found for year '' @ nat_digits y\<rparr>"

text \<open>The sum of the proposed amounts, the \<^verbatim>\<open>reduce\<close> of line 354.\<close>

definition proposedTotal :: "ProposedDeduction list \<Rightarrow> real" where
  "proposedTotal ps = sum_list (map ProposedDeduction.amount ps)"

section \<open>Further example inputs\<close>

text \<open>The answer of the calculator for the wage earner.\<close>

definition wageEarnerCalculation :: TaxCalculation where
  "wageEarnerCalculation =
     \<lparr>grossIncome = 60000, adjustedGrossIncome = 60000, taxableIncome = 45400,
      federalTaxBeforeCredits = 5295.5, totalCredits = 0, federalTaxAfterCredits = 5295.5,
      selfEmploymentTax = 0, totalTaxLiability = 5295.5, totalWithholding = 5000,
      estimatedPayments = 0, refundAmount = 0, amountOwed = 295.5,
      effectiveTaxRate = 883 / 10000, marginalTaxRate = 22 / 100\<rparr>"

text \<open>The same filer with 6000 withheld.\<close>

definition overWithheld :: TaxReturn where
  "overWithheld =
     wageEarner\<lparr>income :=
       \<lparr>IncomeData.wages = [\<lparr>WageIncome.wages = 60000, federalTaxWithheld = 6000\<rparr>],
        selfEmployment = [], investment = [], retirement = [], other = []\<rparr>\<rparr>"

text \<open>An income that is one self-employment activity with the given net profit.\<close>

definition selfEmployed :: "real \<Rightarrow> IncomeData" where
  "selfEmployed p =
     \<lparr>IncomeData.wages = [], selfEmployment = [\<lparr>netProfit = p\<rparr>], investment = [],
      retirement = [], other = []\<rparr>"

text \<open>
  A single filer of 2024 with a net profit of 20000 from self-employment and adjustments
  of 20000: the adjusted gross income is 0 and the self-employment tax is 2825.91.
\<close>

definition adjustedAway :: TaxReturn where
  "adjustedAway =
     \<lparr>id = ''r3'', TaxReturn.taxYear = 2024, filingStatus = SINGLE,
      income = selfEmployed 20000,
      deductions = \<lparr>itemizedDeductions = [], totalItemizedDeductions = 0,
                     adjustments = [\<lparr>IncomeAdjustment.amount = 20000\<rparr>]\<rparr>,
      credits = noCredits, calculations = emptyCalculation\<rparr>"

text \<open>
  A self-employed single filer whose stored calculation has an adjusted gross income of
  120000 and a marginal rate of 24 percent, with no itemized deductions.
\<close>

definition consultant :: TaxReturn where
  "consultant =
     \<lparr>id = ''r2'', TaxReturn.taxYear = 2024, filingStatus = SINGLE,
      income = selfEmployed 120000,
      deductions = noDeductions, credits = noCredits,
      calculations = emptyCalculation\<lparr>adjustedGrossIncome := 120000, marginalTaxRate := 24 / 100\<rparr>\<rparr>"

text \<open>
  The configuration of 2024 with one bracket of rate minus ten percent for every filing
  status, and the configuration of 2024 with a social security rate and a Medicare rate
  of zero.
\<close>

definition negativeRateConfig :: TaxLawConfiguration where
  "negativeRateConfig =
     getTaxYear2024Configuration\<lparr>taxBrackets := \<lambda>fs. [mkBracket 0 999999999 (- (10 / 100))]\<rparr>"


text \<open>A service with an empty cache whose store does not answer.\<close>

definition unavailableService :: TaxLawService where
  "unavailableService =
     \<lparr>db = \<lparr>available = False, tax_law_configurations = Map.empty\<rparr>, configCache = Map.empty\<rparr>"

text \<open>
  A store that holds the wage earner at reference 0 and the deductions of that return at
  reference 1, and a proposal of 20000 in charitable gifts.
\<close>

definition wageEarnerStore :: store where
  "wageEarnerStore =
     [ReturnObject
        \<lparr>idOf = ''r1'', taxYearOf = 2024, filingStatusOf = SINGLE,
         incomeOf = \<lparr>IncomeData.wages = [\<lparr>WageIncome.wages = 60000, federalTaxWithheld = 5000\<rparr>],
                     selfEmployment = [], investment = [], retirement = [], other = []\<rparr>,
         deductionsRef = 1, creditsOf = noCredits, calculationsOf = emptyCalculation\<rparr>,
      DeductionsObject noDeductions]"

definition gifts :: "ProposedDeduction list" where
  "gifts = [\<lparr>ProposedDeduction.category = ''charitable_contributions'', amount = 20000\<rparr>]"

section \<open>Properties of the calculator\<close>

lemma fold_plus_sum_list: "fold (\<lambda>x s. s + f x) xs (a::real) = a + sum_list (map f xs)"
  by (induction xs arbitrary: a) simp_all

lemma Math_round_nonneg: "0 \<le> x \<Longrightarrow> 0 \<le> Math_round x"
  by (simp add: Math_round_def)

lemma roundToTwoDec_nonneg: "0 \<le> x \<Longrightarrow> 0 \<le> roundToTwoDec x"
  by (simp add: roundToTwoDec_def Math_round_nonneg)

lemma roundToTwoDec_zero: "roundToTwoDec 0 = 0"
  by (simp add: roundToTwoDec_def Math_round_def)


lemma seededService_cache_2024:
  "configCache seededService 2024 = Some getTaxYear2024Configuration"
  by (simp add: seededService_def initializeDefaultConfigurations_def freshService_def
      updateTaxLawConfiguration_def query_upsert_def getTaxYear2024Configuration_def
      getTaxYear2023Configuration_def)

lemmas example_defs =
  getTaxYear2024Configuration_def calculateGrossIncome_def calculateAdjustedGrossIncome_def
  calculateTaxableIncome_def noDeductions_def noCredits_def standardDeductions2024_def
  taxBrackets2024_def mkBracket_def calculateFederalTax_def calculateTotalCredits_def
  calculateChildTaxCredit_def calculateSelfEmploymentTax_def calculateTotalWithholding_def
  calculateMarginalTaxRate_def roundToTwoDec_def roundToFourDec_def Math_round_def js_divide_def
  Let_def

lemma wageEarner_steps:
  "calculateTaxSteps wageEarner getTaxYear2024Configuration = Inr wageEarnerCalculation"
  by (simp add: calculateTaxSteps_def wageEarner_def wageEarnerCalculation_def example_defs)

lemma calculateTax_cached:
  "configCache svc (TaxReturn.taxYear taxReturn) = Some taxLawConfig
   \<Longrightarrow> calculateTaxSteps taxReturn taxLawConfig = Inr calculation
   \<Longrightarrow> fst (calculateTax svc taxReturn) = Inr calculation"
  by (simp add: calculateTax_def getTaxLawConfiguration_def)

lemma wageEarner_calculateTax:
  "fst (calculateTax seededService wageEarner) = Inr wageEarnerCalculation"
  using seededService_cache_2024 wageEarner_steps
  by (intro calculateTax_cached) (simp_all add: wageEarner_def)

text \<open>
  Claim C1. Let the configuration of 2024 be the one that the service finds for the year
  2024. For every single filer of 2024 whose wages add up to 60000 and who has no other
  income, no adjustments, itemized deductions of at most the standard deduction of 14600,
  no credits, and 5000 of federal tax withheld from the wages, \<^verbatim>\<open>calculateTax\<close> succeeds
  with a taxable income of 45400 and a federal tax before credits of 5295.50, which the
  bracket walk reaches as 1100 + 4047 + 148.50 (the whole of the first two brackets and
  675 in the third); the amount owed is 295.50 and the refund is 0.
\<close>

theorem C1_single_filer_2024:
  assumes "fst (getTaxLawConfiguration svc 2024) = Some getTaxYear2024Configuration"
    and "TaxReturn.taxYear taxReturn = 2024" and "filingStatus taxReturn = SINGLE"
    and "sum_list (map WageIncome.wages (IncomeData.wages (income taxReturn))) = 60000"
    and "selfEmployment (income taxReturn) = []" and "investment (income taxReturn) = []"
    and "retirement (income taxReturn) = []" and "other (income taxReturn) = []"
    and "adjustments (deductions taxReturn) = []"
    and "totalItemizedDeductions (deductions taxReturn) \<le> 14600"
    and "credits taxReturn = noCredits"
    and "sum_list (map WageIncome.federalTaxWithheld (IncomeData.wages (income taxReturn))) = 5000"
  shows "(\<exists>calculation.
            fst (calculateTax svc taxReturn) = Inr calculation
            \<and> taxableIncome calculation = 45400
            \<and> federalTaxBeforeCredits calculation = 5295.5
            \<and> amountOwed calculation = 295.5
            \<and> refundAmount calculation = 0)
         \<and> calculateFederalTax 45400 getTaxYear2024Configuration SINGLE = 1100 + 4047 + 148.5
         \<and> 11000 * rate (taxBrackets getTaxYear2024Configuration SINGLE ! 0) = 1100
         \<and> (44725 - 11000) * rate (taxBrackets getTaxYear2024Configuration SINGLE ! 1) = 4047
         \<and> (45400 - 44725) * rate (taxBrackets getTaxYear2024Configuration SINGLE ! 2) = 148.5"
proof -
  have "calculateTaxSteps taxReturn getTaxYear2024Configuration = Inr wageEarnerCalculation"
    using assms(2-12)
    by (simp add: calculateTaxSteps_def wageEarnerCalculation_def fold_plus_sum_list example_defs
        max_def)
  then have "fst (calculateTax svc taxReturn) = Inr wageEarnerCalculation"
    using assms(1,2) by (auto simp add: calculateTax_def split: prod.splits option.splits)
  then have result: "\<exists>calculation.
            fst (calculateTax svc taxReturn) = Inr calculation
            \<and> taxableIncome calculation = 45400
            \<and> federalTaxBeforeCredits calculation = 5295.5
            \<and> amountOwed calculation = 295.5
            \<and> refundAmount calculation = 0"
    by (simp add: wageEarnerCalculation_def)
  have walk: "calculateFederalTax 45400 getTaxYear2024Configuration SINGLE = 1100 + 4047 + 148.5"
    by (simp add: calculateFederalTax_def getTaxYear2024Configuration_def taxBrackets2024_def
        mkBracket_def Let_def)
  have parts: "11000 * rate (taxBrackets getTaxYear2024Configuration SINGLE ! 0) = 1100"
    "(44725 - 11000) * rate (taxBrackets getTaxYear2024Configuration SINGLE ! 1) = 4047"
    "(45400 - 44725) * rate (taxBrackets getTaxYear2024Configuration SINGLE ! 2) = 148.5"
    by (simp_all add: getTaxYear2024Configuration_def taxBrackets2024_def mkBracket_def)
  show ?thesis
    using result walk parts by blast
qed

text \<open>
  The property for the wage earner with one W-2 on the service after start-up.
\<close>

theorem C1_witness:
  "fst (getTaxLawConfiguration seededService 2024) = Some getTaxYear2024Configuration
   \<and> TaxReturn.taxYear wageEarner = 2024 \<and> filingStatus wageEarner = SINGLE
   \<and> sum_list (map WageIncome.wages (IncomeData.wages (income wageEarner))) = 60000
   \<and> totalItemizedDeductions (deductions wageEarner) \<le> 14600
   \<and> sum_list (map WageIncome.federalTaxWithheld (IncomeData.wages (income wageEarner))) = 5000
   \<and> (\<exists>calculation.
         fst (calculateTax seededService wageEarner) = Inr calculation
         \<and> taxableIncome calculation = 45400
         \<and> federalTaxBeforeCredits calculation = 5295.5
         \<and> amountOwed calculation = 295.5
         \<and> refundAmount calculation = 0)"
proof -
  have g: "fst (getTaxLawConfiguration seededService 2024) = Some getTaxYear2024Configuration"
    using seededService_cache_2024 by (simp add: getTaxLawConfiguration_def)
  have w: "TaxReturn.taxYear wageEarner = 2024" "filingStatus wageEarner = SINGLE"
    "sum_list (map WageIncome.wages (IncomeData.wages (income wageEarner))) = 60000"
    "selfEmployment (income wageEarner) = []" "investment (income wageEarner) = []"
    "retirement (income wageEarner) = []" "other (income wageEarner) = []"
    "adjustments (deductions wageEarner) = []"
    "totalItemizedDeductions (deductions wageEarner) \<le> 14600"
    "credits wageEarner = noCredits"
    "sum_list (map WageIncome.federalTaxWithheld (IncomeData.wages (income wageEarner))) = 5000"
    by (simp_all add: wageEarner_def noDeductions_def)
  show ?thesis
    using C1_single_filer_2024 [OF g w] g w by blast
qed

subsection \<open>Refund and amount owed\<close>

lemma calculateTaxSteps_refund_owed:
  assumes "calculateTaxSteps taxReturn taxLawConfig = Inr calculation"
  shows "(refundAmount calculation = 0 \<or> amountOwed calculation = 0)
         \<and> 0 \<le> refundAmount calculation \<and> 0 \<le> amountOwed calculation"
  using assms
  by (auto simp add: calculateTaxSteps_def Let_def roundToTwoDec_zero roundToTwoDec_nonneg
      split: sum.splits if_splits)

lemma calculateTax_Inr:
  assumes "fst (calculateTax svc taxReturn) = Inr calculation"
  shows "\<exists>taxLawConfig.
           fst (getTaxLawConfiguration svc (TaxReturn.taxYear taxReturn)) = Some taxLawConfig
           \<and> calculateTaxSteps taxReturn taxLawConfig = Inr calculation"
  using assms
  by (auto simp add: calculateTax_def split: prod.splits option.splits sum.splits)

text \<open>
  Claim C2. Whenever the steps of the calculation succeed for a tax return and a law
  configuration, or \<^verbatim>\<open>calculateTax\<close> succeeds for a tax return on any service, the returned
  refund and amount owed, which are the rounded values, are not both positive, and
  neither is negative.
\<close>

theorem C2_refund_owed_exclusive:
  "calculateTaxSteps taxReturn taxLawConfig = Inr calculation
     \<or> fst (calculateTax svc taxReturn) = Inr calculation
   \<Longrightarrow> \<not> (refundAmount calculation > 0 \<and> amountOwed calculation > 0)
       \<and> 0 \<le> refundAmount calculation \<and> 0 \<le> amountOwed calculation"
  using calculateTaxSteps_refund_owed calculateTax_Inr
  by (metis less_irrefl)

lemma overWithheld_calculateTax:
  "fst (calculateTax seededService overWithheld) =
     Inr (wageEarnerCalculation\<lparr>totalWithholding := 6000, refundAmount := 704.5, amountOwed := 0\<rparr>)"
proof -
  have "calculateTaxSteps overWithheld getTaxYear2024Configuration =
     Inr (wageEarnerCalculation\<lparr>totalWithholding := 6000, refundAmount := 704.5, amountOwed := 0\<rparr>)"
    by (simp add: calculateTaxSteps_def overWithheld_def wageEarner_def wageEarnerCalculation_def
        example_defs)
  then show ?thesis
    using seededService_cache_2024
    by (intro calculateTax_cached) (simp_all add: overWithheld_def wageEarner_def)
qed

text \<open>
  The property at the filer who owes 295.50 and at the filer who gets 704.50 back.
\<close>

theorem C2_witness:
  "fst (calculateTax seededService wageEarner) = Inr wageEarnerCalculation
   \<and> refundAmount wageEarnerCalculation = 0 \<and> amountOwed wageEarnerCalculation = 295.5
   \<and> fst (calculateTax seededService overWithheld) =
       Inr (wageEarnerCalculation\<lparr>totalWithholding := 6000, refundAmount := 704.5, amountOwed := 0\<rparr>)
   \<and> \<not> (refundAmount (wageEarnerCalculation\<lparr>totalWithholding := 6000, refundAmount := 704.5,
                                              amountOwed := 0\<rparr>) > 0
         \<and> amountOwed (wageEarnerCalculation\<lparr>totalWithholding := 6000, refundAmount := 704.5,
                                               amountOwed := 0\<rparr>) > 0)"
  using C2_refund_owed_exclusive [of wageEarner getTaxYear2024Configuration wageEarnerCalculation seededService]
    C2_refund_owed_exclusive [of overWithheld getTaxYear2024Configuration
      "wageEarnerCalculation\<lparr>totalWithholding := 6000, refundAmount := 704.5, amountOwed := 0\<rparr>"
      seededService]
    wageEarner_calculateTax overWithheld_calculateTax
  by (simp add: wageEarnerCalculation_def)


subsection \<open>The bracket walk and the marginal bracket\<close>

lemma bracketWalk_Cons:
  "0 < x \<Longrightarrow> m = min x (bmax b - bmin b) \<Longrightarrow>
   bracketWalk (b # bs) t x =
     (if x - m \<le> 0 then t + m * rate b else bracketWalk bs (t + m * rate b) (x - m))"
  by (simp add: Let_def)

lemma bracketWalk_lower:
  "list_all (\<lambda>b. 0 \<le> rate b \<and> bmin b \<le> bmax b) bs \<Longrightarrow> t \<le> bracketWalk bs t x"
proof (induction bs arbitrary: t x)
  case Nil
  then show ?case by simp
next
  case (Cons b bs)
  have r: "0 \<le> rate b" and w: "0 \<le> bmax b - bmin b"
    and rest: "list_all (\<lambda>b. 0 \<le> rate b \<and> bmin b \<le> bmax b) bs"
    using Cons.prems by simp_all
  show ?case
  proof (cases "x \<le> 0")
    case True
    then show ?thesis by simp
  next
    case False
    define m where "m = min x (bmax b - bmin b)"
    have "0 \<le> m" using False w by (simp add: m_def)
    then have step: "t \<le> t + m * rate b" using r by simp
    have "t + m * rate b \<le> bracketWalk bs (t + m * rate b) (x - m)"
      by (rule Cons.IH [OF rest])
    moreover have "bracketWalk (b # bs) t x =
        (if x - m \<le> 0 then t + m * rate b else bracketWalk bs (t + m * rate b) (x - m))"
      using False by (intro bracketWalk_Cons) (simp_all add: m_def)
    ultimately show ?thesis
      using step by (simp del: bracketWalk.simps)
  qed
qed

lemma bracketWalk_mono:
  "list_all (\<lambda>b. 0 \<le> rate b \<and> bmin b \<le> bmax b) bs \<Longrightarrow> x \<le> y \<Longrightarrow> bracketWalk bs t x \<le> bracketWalk bs t y"
proof (induction bs arbitrary: t x y)
  case Nil
  then show ?case by simp
next
  case (Cons b bs)
  define w where "w = bmax b - bmin b"
  have r: "0 \<le> rate b" and w: "0 \<le> w" and rest: "list_all (\<lambda>b. 0 \<le> rate b \<and> bmin b \<le> bmax b) bs"
    using Cons.prems by (simp_all add: w_def)
  show ?case
  proof (cases "x \<le> 0")
    case True
    then have "bracketWalk (b # bs) t x = t" by simp
    then show ?thesis using bracketWalk_lower [OF Cons.prems(1)] by simp
  next
    case xpos: False
    show ?thesis
    proof (cases "x \<le> w")
      case True
      then have lhs: "bracketWalk (b # bs) t x = t + x * rate b"
        using xpos by (simp add: w_def Let_def min_def)
      show ?thesis
      proof (cases "y \<le> w")
        case True
        then have "bracketWalk (b # bs) t y = t + y * rate b"
          using xpos Cons.prems(2) by (simp add: w_def Let_def min_def)
        then show ?thesis using lhs r Cons.prems(2) by (simp add: mult_right_mono)
      next
        case False
        then have "bracketWalk (b # bs) t y = bracketWalk bs (t + w * rate b) (y - w)"
          using xpos Cons.prems(2) by (simp add: w_def Let_def min_def)
        moreover have "t + w * rate b \<le> bracketWalk bs (t + w * rate b) (y - w)"
          by (rule bracketWalk_lower [OF rest])
        moreover have "x * rate b \<le> w * rate b" using True r by (simp add: mult_right_mono)
        ultimately show ?thesis using lhs by simp
      qed
    next
      case False
      then have "bracketWalk (b # bs) t x = bracketWalk bs (t + w * rate b) (x - w)"
        using xpos by (simp add: w_def Let_def min_def)
      moreover have "bracketWalk (b # bs) t y = bracketWalk bs (t + w * rate b) (y - w)"
        using xpos False Cons.prems(2) by (simp add: w_def Let_def min_def)
      moreover have "bracketWalk bs (t + w * rate b) (x - w) \<le> bracketWalk bs (t + w * rate b) (y - w)"
        using Cons.IH [OF rest] Cons.prems(2) by simp
      ultimately show ?thesis by simp
    qed
  qed
qed

lemma contiguous_bmin_le:
  "contiguous (b # bs) \<Longrightarrow> list_all (\<lambda>b. bmin b < bmax b) (b # bs) \<Longrightarrow> c \<in> set bs \<Longrightarrow> bmax b \<le> bmin c"
proof (induction bs arbitrary: b)
  case Nil
  then show ?case by simp
next
  case (Cons d bs)
  show ?case
  proof (cases "c = d")
    case True
    then show ?thesis using Cons.prems by simp
  next
    case False
    then have "c \<in> set bs" using Cons.prems by simp
    then have "bmax d \<le> bmin c" using Cons.IH [of d] Cons.prems by simp
    then show ?thesis using Cons.prems by simp
  qed
qed

lemma one_bracket:
  "bs \<noteq> [] \<Longrightarrow> contiguous bs \<Longrightarrow> list_all (\<lambda>b. bmin b < bmax b) bs
   \<Longrightarrow> bmin (hd bs) \<le> x \<Longrightarrow> x < bmax (last bs)
   \<Longrightarrow> \<exists>c. filter (holds x) bs = [c] \<and> bracketSearch bs x = Some (rate c)"
proof (induction bs)
  case Nil
  then show ?case by simp
next
  case (Cons b bs)
  show ?case
  proof (cases "x < bmax b")
    case True
    have "\<not> holds x c" if "c \<in> set bs" for c
      using contiguous_bmin_le [OF Cons.prems(2) Cons.prems(3) that] True by (simp add: holds_def)
    then have "filter (holds x) bs = []" by (simp add: filter_empty_conv)
    moreover have "holds x b" using True Cons.prems(4) by (simp add: holds_def)
    ultimately show ?thesis using True Cons.prems(4) by simp
  next
    case False
    then have ne: "bs \<noteq> []" using Cons.prems(5) by auto
    then obtain d ds where bs: "bs = d # ds" by (cases bs) auto
    have "\<exists>c. filter (holds x) bs = [c] \<and> bracketSearch bs x = Some (rate c)"
      using Cons.IH ne Cons.prems False by (simp add: bs)
    moreover have "\<not> holds x b" using False by (simp add: holds_def)
    ultimately show ?thesis using False by simp
  qed
qed

lemma bmax_le_last:
  "contiguous (b # bs) \<Longrightarrow> list_all (\<lambda>b. bmin b < bmax b) (b # bs) \<Longrightarrow> c \<in> set (b # bs)
   \<Longrightarrow> bmax c \<le> bmax (last (b # bs))"
proof (induction bs arbitrary: b c)
  case Nil
  then show ?case by simp
next
  case (Cons d bs)
  have step: "bmax b \<le> bmax d" using Cons.prems(1,2) by simp
  have cd: "contiguous (d # bs)" and ld: "list_all (\<lambda>b. bmin b < bmax b) (d # bs)"
    using Cons.prems(1,2) by simp_all
  have tail: "bmax e \<le> bmax (last (d # bs))" if "e \<in> set (d # bs)" for e
    using cd ld that by (rule Cons.IH)
  have l: "last (b # d # bs) = last (d # bs)" by simp
  show ?case
  proof (cases "c = b")
    case True
    have "bmax d \<le> bmax (last (d # bs))" by (rule tail) simp
    then have "bmax b \<le> bmax (last (d # bs))" using step by linarith
    then show ?thesis unfolding l True .
  next
    case False
    then have "c \<in> set (d # bs)" using Cons.prems(3) by simp
    then show ?thesis unfolding l by (rule tail)
  qed
qed

lemma bracketSearch_None: "filter (holds x) bs = [] \<Longrightarrow> bracketSearch bs x = None"
  by (induction bs) (auto simp add: holds_def split: if_splits)

lemma beyond_top_bracket:
  assumes "bs \<noteq> []" and "contiguous bs" and "list_all (\<lambda>b. bmin b < bmax b) bs"
    and "bmax (last bs) \<le> x"
  shows "filter (holds x) bs = [] \<and> bracketSearch bs x = None"
proof -
  obtain b cs where bs: "bs = b # cs" using assms(1) by (cases bs) auto
  have "\<not> holds x c" if "c \<in> set bs" for c
    using bmax_le_last [of b cs c] assms(2,3,4) that by (simp add: bs holds_def)
  then have "filter (holds x) bs = []" by (simp add: filter_empty_conv)
  then show ?thesis by (simp add: bracketSearch_None)
qed

text \<open>
  Claim C3. Let the bracket list of a filing status satisfy the invariant (it starts at 0,
  is contiguous and ascending, and its rates do not decrease), let its rates be
  non-negative, and let \<open>x \<le> y\<close> be any non-negative incomes. Then
  \<^verbatim>\<open>calculateMarginalTaxRate\<close> assigns \<open>x\<close> to the rate of exactly one bracket: below the end
  of the top bracket exactly one bracket holds \<open>x\<close> and the rate of that bracket is
  returned; at or above that end no bracket holds \<open>x\<close> and the rate of the top bracket is
  returned, the top bracket standing for all incomes beyond the others. And
  \<^verbatim>\<open>calculateFederalTax\<close> at \<open>x\<close> is at most \<^verbatim>\<open>calculateFederalTax\<close> at \<open>y\<close>.
\<close>

theorem C3_one_bracket_and_monotone:
  assumes "bracketInvariant (taxBrackets taxLawConfig fs)"
    and "list_all (\<lambda>b. 0 \<le> rate b) (taxBrackets taxLawConfig fs)"
    and "0 \<le> x" and "x \<le> y"
  shows "(x < bmax (last (taxBrackets taxLawConfig fs)) \<longrightarrow>
            map (\<lambda>b. Inr (rate b)) (filter (holds x) (taxBrackets taxLawConfig fs))
              = [calculateMarginalTaxRate x taxLawConfig fs])
         \<and> (bmax (last (taxBrackets taxLawConfig fs)) \<le> x \<longrightarrow>
              filter (holds x) (taxBrackets taxLawConfig fs) = []
              \<and> calculateMarginalTaxRate x taxLawConfig fs
                  = Inr (rate (last (taxBrackets taxLawConfig fs))))
         \<and> calculateFederalTax x taxLawConfig fs \<le> calculateFederalTax y taxLawConfig fs"
proof -
  define bs where "bs = taxBrackets taxLawConfig fs"
  have inv: "bs \<noteq> []" "bmin (hd bs) = 0" "contiguous bs" "list_all (\<lambda>b. bmin b < bmax b) bs"
    using assms(1) by (simp_all add: bracketInvariant_def bs_def)
  have below: "map (\<lambda>b. Inr (rate b)) (filter (holds x) bs) = [calculateMarginalTaxRate x taxLawConfig fs]"
    if "x < bmax (last bs)"
  proof -
    have "\<exists>c. filter (holds x) bs = [c] \<and> bracketSearch bs x = Some (rate c)"
      using inv assms(3) that by (intro one_bracket) simp_all
    then show ?thesis
      by (auto simp add: calculateMarginalTaxRate_def bs_def)
  qed
  have beyond: "filter (holds x) bs = [] \<and> calculateMarginalTaxRate x taxLawConfig fs = Inr (rate (last bs))"
    if "bmax (last bs) \<le> x"
  proof -
    have "filter (holds x) bs = [] \<and> bracketSearch bs x = None"
      using inv(1,3,4) that by (rule beyond_top_bracket)
    then show ?thesis
      using inv(1) by (simp add: calculateMarginalTaxRate_def bs_def)
  qed
  have "list_all (\<lambda>b. 0 \<le> rate b \<and> bmin b \<le> bmax b) bs"
    using inv(4) assms(2) by (auto simp add: list_all_iff bs_def)
  then have "bracketWalk bs 0 x \<le> bracketWalk bs 0 y"
    using assms(4) by (rule bracketWalk_mono)
  then show ?thesis
    using below beyond by (simp add: calculateFederalTax_def bs_def)
qed

text \<open>
  The property for a single filer of 2024 at the incomes 45400 and 50000, where the
  marginal rate is that of the third bracket, and at the incomes 2000000000 and 3000000000
  beyond the end of the top bracket, where it is the top rate of 37 percent.
\<close>

theorem C3_witness:
  "bracketInvariant (taxBrackets getTaxYear2024Configuration SINGLE)
   \<and> list_all (\<lambda>b. 0 \<le> rate b) (taxBrackets getTaxYear2024Configuration SINGLE)
   \<and> (0::real) \<le> 45400 \<and> (45400::real) \<le> 50000
   \<and> 45400 < bmax (last (taxBrackets getTaxYear2024Configuration SINGLE))
   \<and> calculateMarginalTaxRate 45400 getTaxYear2024Configuration SINGLE = Inr (22 / 100)
   \<and> calculateFederalTax 45400 getTaxYear2024Configuration SINGLE
        \<le> calculateFederalTax 50000 getTaxYear2024Configuration SINGLE
   \<and> (0::real) \<le> 2000000000 \<and> (2000000000::real) \<le> 3000000000
   \<and> bmax (last (taxBrackets getTaxYear2024Configuration SINGLE)) \<le> 2000000000
   \<and> calculateMarginalTaxRate 2000000000 getTaxYear2024Configuration SINGLE = Inr (37 / 100)
   \<and> calculateFederalTax 2000000000 getTaxYear2024Configuration SINGLE
        \<le> calculateFederalTax 3000000000 getTaxYear2024Configuration SINGLE"
proof -
  have a: "bracketInvariant (taxBrackets getTaxYear2024Configuration SINGLE)"
    by (simp add: getTaxYear2024Configuration_def taxBrackets2024_def bracketInvariant_def mkBracket_def)
  have b: "list_all (\<lambda>b. 0 \<le> rate b) (taxBrackets getTaxYear2024Configuration SINGLE)"
    by (simp add: getTaxYear2024Configuration_def taxBrackets2024_def mkBracket_def)
  have c: "bmax (last (taxBrackets getTaxYear2024Configuration SINGLE)) = 999999999"
    "rate (last (taxBrackets getTaxYear2024Configuration SINGLE)) = 37 / 100"
    by (simp_all add: getTaxYear2024Configuration_def taxBrackets2024_def mkBracket_def)
  have d: "filter (holds 45400) (taxBrackets getTaxYear2024Configuration SINGLE)
             = [mkBracket 44725 95375 (22 / 100)]"
    by (simp add: getTaxYear2024Configuration_def taxBrackets2024_def mkBracket_def holds_def)
  show ?thesis
    using C3_one_bracket_and_monotone [OF a b, of 45400 50000]
      C3_one_bracket_and_monotone [OF a b, of 2000000000 3000000000] a b d
    by (simp add: c mkBracket_def)
qed

text \<open>
  Without the condition on the sign of the rates the tax is not monotone: the list with the
  one bracket from 0 to 999999999 at minus ten percent satisfies the invariant, and the tax
  on 50 is -5 while the tax on 100 is -10.
\<close>

theorem C3_counterexample:
  "bracketInvariant (taxBrackets negativeRateConfig SINGLE)
   \<and> (0::real) \<le> 50 \<and> (50::real) \<le> 100
   \<and> 100 < bmax (last (taxBrackets negativeRateConfig SINGLE))
   \<and> \<not> calculateFederalTax 50 negativeRateConfig SINGLE \<le> calculateFederalTax 100 negativeRateConfig SINGLE"
  by (simp add: negativeRateConfig_def getTaxYear2024Configuration_def bracketInvariant_def mkBracket_def
      calculateFederalTax_def Let_def)

subsection \<open>The child tax credit\<close>

text \<open>
  Claim C4. For every base amount, adjusted gross income, configuration and filing status,
  \<^verbatim>\<open>calculateChildTaxCredit\<close> returns the base amount if the income is at most the threshold
  of the filing status, and otherwise the base amount less 50 for every started 1000 of
  excess, but not less than 0. At the threshold the credit is the base amount; one above
  the threshold the phase-out is exactly 50, so the credit is the base amount less 50
  (and 0 for a base amount below 50).
\<close>

theorem C4_child_credit_phaseout:
  "calculateChildTaxCredit baseCredit agi taxLawConfig fs =
     (if agi \<le> childTaxCreditPhaseoutThreshold taxLawConfig fs then baseCredit
      else max 0 (baseCredit - of_int \<lceil>(agi - childTaxCreditPhaseoutThreshold taxLawConfig fs) / 1000\<rceil> * 50))
   \<and> calculateChildTaxCredit baseCredit (childTaxCreditPhaseoutThreshold taxLawConfig fs) taxLawConfig fs = baseCredit
   \<and> calculateChildTaxCredit baseCredit (childTaxCreditPhaseoutThreshold taxLawConfig fs + 1) taxLawConfig fs
       = max 0 (baseCredit - 50)
   \<and> (50 \<le> baseCredit \<longrightarrow>
        calculateChildTaxCredit baseCredit (childTaxCreditPhaseoutThreshold taxLawConfig fs + 1) taxLawConfig fs
          = baseCredit - 50)"
proof -
  have pos: "0 < \<lceil>e / 1000\<rceil>" if "0 < e" for e :: real
    using that by (simp add: ceiling_less_iff)
  have general: "calculateChildTaxCredit b a taxLawConfig fs =
     (if a \<le> childTaxCreditPhaseoutThreshold taxLawConfig fs then b
      else max 0 (b - of_int \<lceil>(a - childTaxCreditPhaseoutThreshold taxLawConfig fs) / 1000\<rceil> * 50))" for a b
  proof (cases "b = 0")
    case True
    have "0 \<le> real_of_int \<lceil>(a - childTaxCreditPhaseoutThreshold taxLawConfig fs) / 1000\<rceil>"
      if "\<not> a \<le> childTaxCreditPhaseoutThreshold taxLawConfig fs"
      using pos [of "a - childTaxCreditPhaseoutThreshold taxLawConfig fs"] that by simp
    then show ?thesis using True by (simp add: calculateChildTaxCredit_def)
  next
    case False
    then show ?thesis by (simp add: calculateChildTaxCredit_def Let_def Math_ceil_def)
  qed
  have one: "\<lceil>(1::real) / 1000\<rceil> = 1" by (simp add: ceiling_eq_iff)
  show ?thesis
    using general [of baseCredit agi] general [of baseCredit "childTaxCreditPhaseoutThreshold taxLawConfig fs"]
      general [of baseCredit "childTaxCreditPhaseoutThreshold taxLawConfig fs + 1"] one
    by simp
qed

text \<open>
  The property for a joint return with a base amount of 2000: the full 2000 at 400000,
  1950 at 400001 and 1500 at 410000.
\<close>

theorem C4_witness:
  "(50::real) \<le> 2000
   \<and> calculateChildTaxCredit 2000 400000 getTaxYear2024Configuration MARRIED_FILING_JOINTLY = 2000
   \<and> calculateChildTaxCredit 2000 400001 getTaxYear2024Configuration MARRIED_FILING_JOINTLY = 1950
   \<and> calculateChildTaxCredit 2000 410000 getTaxYear2024Configuration MARRIED_FILING_JOINTLY = 1500"
  using C4_child_credit_phaseout [of 2000 410000 getTaxYear2024Configuration MARRIED_FILING_JOINTLY]
  by (simp add: getTaxYear2024Configuration_def childTaxCreditPhaseoutThreshold2024_def)

subsection \<open>The self-employment tax\<close>





subsection \<open>The effective tax rate\<close>







lemma adjustedAway_unrounded:
  "unroundedAGI adjustedAway = 0" "unroundedLiability adjustedAway getTaxYear2024Configuration = 2825.91"
  by (simp_all add: unroundedAGI_def unroundedLiability_def adjustedAway_def selfEmployed_def example_defs)

lemma quotient_without_guard:
  "js_divide (unroundedLiability adjustedAway getTaxYear2024Configuration) (unroundedAGI adjustedAway)
     = Inl NonFinite"
  by (simp add: adjustedAway_unrounded js_divide_def)





section \<open>Properties of the registry\<close>

text \<open>
  Claim C6. For every service and tax return whose year is not in the cache, if the query
  of the store throws or finds no row, \<^verbatim>\<open>getTaxLawConfiguration\<close> returns \<^verbatim>\<open>null\<close> and leaves
  the service as it was, and \<^verbatim>\<open>calculateTax\<close> answers with the code INTERNAL_ERROR and the
  message that the configuration was not found for the year: one and the same answer for
  both causes.
\<close>

theorem C6_failures_not_distinguished:
  assumes "configCache svc (TaxReturn.taxYear taxReturn) = None"
    and "query_select (db svc) (TaxReturn.taxYear taxReturn) = Inl QueryFailed
         \<or> query_select (db svc) (TaxReturn.taxYear taxReturn) = Inr None"
  shows "getTaxLawConfiguration svc (TaxReturn.taxYear taxReturn) = (None, svc)
         \<and> calculateTax svc taxReturn = (Inl (notFoundError (TaxReturn.taxYear taxReturn)), svc)"
  using assms by (auto simp add: getTaxLawConfiguration_def calculateTax_def notFoundError_def)

lemma nat_digits_2024: "nat_digits 2024 = ''2024''"
  by (simp add: nat_digits.simps digit_char_def)

text \<open>
  The property for the wage earner on a service whose store does not answer and on a
  service whose store is empty.
\<close>

theorem C6_witness:
  "configCache unavailableService (TaxReturn.taxYear wageEarner) = None
   \<and> query_select (db unavailableService) (TaxReturn.taxYear wageEarner) = Inl QueryFailed
   \<and> configCache freshService (TaxReturn.taxYear wageEarner) = None
   \<and> query_select (db freshService) (TaxReturn.taxYear wageEarner) = Inr None
   \<and> fst (calculateTax unavailableService wageEarner)
       = Inl \<lparr>code = INTERNAL_ERROR, message = ''Tax law configuration not found for year 2024''\<rparr>
   \<and> fst (calculateTax freshService wageEarner)
       = Inl \<lparr>code = INTERNAL_ERROR, message = ''Tax law configuration not found for year 2024''\<rparr>"
proof -
  have y: "TaxReturn.taxYear wageEarner = 2024" by (simp add: wageEarner_def)
  have a: "configCache unavailableService 2024 = None"
    "query_select (db unavailableService) 2024 = Inl QueryFailed"
    by (simp_all add: unavailableService_def query_select_def)
  have b: "configCache freshService 2024 = None" "query_select (db freshService) 2024 = Inr None"
    by (simp_all add: freshService_def query_select_def)
  show ?thesis
    using C6_failures_not_distinguished [of unavailableService wageEarner]
      C6_failures_not_distinguished [of freshService wageEarner] a b
    by (simp add: y notFoundError_def nat_digits_2024)
qed

text \<open>
  The two causes are therefore not told apart by the caller: the query throws on the one
  service and finds no row on the other, and both the lookup and \<^verbatim>\<open>calculateTax\<close> answer
  the same.
\<close>

theorem C6_counterexample:
  "query_select (db unavailableService) (TaxReturn.taxYear wageEarner) = Inl QueryFailed
   \<and> query_select (db freshService) (TaxReturn.taxYear wageEarner) = Inr None
   \<and> fst (getTaxLawConfiguration unavailableService (TaxReturn.taxYear wageEarner))
       = fst (getTaxLawConfiguration freshService (TaxReturn.taxYear wageEarner))
   \<and> fst (calculateTax unavailableService wageEarner) = fst (calculateTax freshService wageEarner)"
  by (simp add: unavailableService_def freshService_def query_select_def getTaxLawConfiguration_def
      calculateTax_def)


section \<open>Properties of the advisor\<close>

subsection \<open>The order of the recommendations\<close>

lemma sortInsert_desc_sorted:
  "sorted_wrt (\<lambda>a b. f a \<ge> f b) ys \<Longrightarrow> sorted_wrt (\<lambda>a b. f a \<ge> f b) (sortInsert (\<lambda>a b. f b - f a) x ys)"
proof (induction ys)
  case Nil
  then show ?case by simp
next
  case (Cons y ys)
  have set_ins: "set (sortInsert (\<lambda>a b. f b - f a) x zs) = insert x (set zs)" for zs
    by (induction zs) auto
  show ?case
  proof (cases "f y - f x \<le> 0")
    case True
    then show ?thesis using Cons.prems by auto
  next
    case False
    then show ?thesis using Cons by (auto simp add: set_ins)
  qed
qed

lemma sortInsert_desc_filter:
  "filter (\<lambda>y. f y = k) (sortInsert (\<lambda>a b. f b - f a) x ys) = filter (\<lambda>y. f y = k) (x # ys)"
  by (induction ys) auto

lemma sortInsert_mset: "mset (sortInsert cmp x ys) = add_mset x (mset ys)"
  by (induction ys) auto

lemma Array_sort_Cons: "Array_sort cmp (x # xs) = sortInsert cmp x (Array_sort cmp xs)"
  by (simp add: Array_sort_def)

lemma Array_sort_desc_sorted: "sorted_wrt (\<lambda>a b. f a \<ge> f b) (Array_sort (\<lambda>a b. f b - f a) xs)"
proof (induction xs)
  case Nil
  then show ?case by (simp add: Array_sort_def)
next
  case (Cons x xs)
  then show ?case by (simp add: Array_sort_Cons sortInsert_desc_sorted)
qed

lemma Array_sort_desc_stable:
  "filter (\<lambda>y. f y = k) (Array_sort (\<lambda>a b. f b - f a) xs) = filter (\<lambda>y. f y = k) xs"
proof (induction xs)
  case Nil
  then show ?case by (simp add: Array_sort_def)
next
  case (Cons x xs)
  then show ?case by (simp add: Array_sort_Cons sortInsert_desc_filter)
qed

lemma Array_sort_mset: "mset (Array_sort cmp xs) = mset xs"
  by (induction xs) (simp_all add: Array_sort_def sortInsert_mset)

text \<open>
  Claim C7. For every service and tax return, \<^verbatim>\<open>optimizeDeductions\<close> succeeds with the list of
  \<^verbatim>\<open>generateDeductionRecommendations\<close>, which is sorted by descending potential savings; for
  every value of the potential savings the recommendations with that value appear in the
  order in which the rules produced them; the list holds the recommendations of the rules
  and no others; and the aggregate potential savings is the sum of the potential savings
  of the recommendations.
\<close>

theorem C7_sorted_stable_sum:
  "\<exists>result.
     fst (optimizeDeductions svc taxReturn) = Inr result
     \<and> recommendations result = generateDeductionRecommendations taxReturn
     \<and> sorted_wrt (\<lambda>a b. DeductionRecommendation.potentialSavings a \<ge> DeductionRecommendation.potentialSavings b)
          (recommendations result)
     \<and> (\<forall>k. filter (\<lambda>rec. DeductionRecommendation.potentialSavings rec = k) (recommendations result)
            = filter (\<lambda>rec. DeductionRecommendation.potentialSavings rec = k) (ruleRecommendations taxReturn))
     \<and> mset (recommendations result) = mset (ruleRecommendations taxReturn)
     \<and> Optimization.potentialSavings result
         = sum_list (map DeductionRecommendation.potentialSavings (recommendations result))"
  by (simp add: optimizeDeductions_def Let_def split_beta generateDeductionRecommendations_def
      Array_sort_desc_sorted Array_sort_desc_stable Array_sort_mset fold_plus_sum_list)

lemma consultant_order:
  "map (\<lambda>rec. (DeductionRecommendation.category rec, DeductionRecommendation.potentialSavings rec))
     (generateDeductionRecommendations consultant) =
   [(Itemized MEDICAL_DENTAL, 2160.24), (Itemized MORTGAGE_INTEREST, 1920),
    (Itemized MISCELLANEOUS, 1560), (Itemized MEDICAL_DENTAL, 1440),
    (Itemized STATE_LOCAL_TAXES, 720), (Itemized CHARITABLE_CONTRIBUTIONS, 480),
    (Business VEHICLE, 480), (Business OFFICE_EXPENSES, 288), (Business PROFESSIONAL_SERVICES, 192)]"
  by (simp add: generateDeductionRecommendations_def ruleRecommendations_def Array_sort_def
      analyzeMedicalDeductions_def analyzeStateLocalTaxDeductions_def analyzeMortgageInterestDeductions_def
      analyzeCharitableDeductions_def analyzeBusinessDeductions_def analyzeEducationDeductions_def
      analyzeRetirementDeductions_def consultant_def selfEmployed_def noDeductions_def emptyCalculation_def
      currentItemized_def calculateTaxSavings_def Let_def)

text \<open>
  The property for the consultant: nine recommendations in descending order, the
  charitable one ahead of the vehicle one, which saves the same 480 and comes from a later
  rule, and 9240.24 in total.
\<close>

theorem C7_witness:
  "\<exists>result.
     fst (optimizeDeductions seededService consultant) = Inr result
     \<and> map (\<lambda>rec. (DeductionRecommendation.category rec, DeductionRecommendation.potentialSavings rec))
          (recommendations result) =
        [(Itemized MEDICAL_DENTAL, 2160.24), (Itemized MORTGAGE_INTEREST, 1920),
         (Itemized MISCELLANEOUS, 1560), (Itemized MEDICAL_DENTAL, 1440),
         (Itemized STATE_LOCAL_TAXES, 720), (Itemized CHARITABLE_CONTRIBUTIONS, 480),
         (Business VEHICLE, 480), (Business OFFICE_EXPENSES, 288), (Business PROFESSIONAL_SERVICES, 192)]
     \<and> Optimization.potentialSavings result = 9240.24"
proof -
  obtain result where res: "fst (optimizeDeductions seededService consultant) = Inr result"
    and recs: "recommendations result = generateDeductionRecommendations consultant"
    and total: "Optimization.potentialSavings result
         = sum_list (map DeductionRecommendation.potentialSavings (recommendations result))"
    using C7_sorted_stable_sum [of seededService consultant] by blast
  have "map DeductionRecommendation.potentialSavings (recommendations result) =
      map snd (map (\<lambda>rec. (DeductionRecommendation.category rec, DeductionRecommendation.potentialSavings rec))
                 (generateDeductionRecommendations consultant))"
    by (simp add: recs comp_def)
  then have "Optimization.potentialSavings result = 9240.24"
    unfolding total consultant_order by simp
  then show ?thesis
    using res recs consultant_order by simp
qed

subsection \<open>The number of recommendations of a rule\<close>

text \<open>
  Claim C8. For every tax return the medical rule contributes one recommendation when the
  medical deductions are below 7.5 percent of the adjusted gross income and one more when
  that income is above 50000; the rule for state and local taxes, the mortgage rule and the
  charitable rule contribute none or one; the business rule contributes three when there
  is self-employment income and none otherwise; the education rule contributes one below
  an income of 85000 and one more below 80000; the retirement rule contributes one always
  and one more below an income of 100000. The list of \<^verbatim>\<open>generateDeductionRecommendations\<close> is
  made of exactly these contributions.
\<close>

theorem C8_contributions:
  "length (analyzeMedicalDeductions taxReturn) =
     (if currentItemized taxReturn MEDICAL_DENTAL < adjustedGrossIncome (calculations taxReturn) * (75 / 1000)
      then 1 else 0)
     + (if adjustedGrossIncome (calculations taxReturn) > 50000 then 1 else 0)
   \<and> length (analyzeStateLocalTaxDeductions taxReturn) =
       (if currentItemized taxReturn STATE_LOCAL_TAXES < 10000 then 1 else 0)
   \<and> length (analyzeMortgageInterestDeductions taxReturn) =
       (if \<not> list_ex (\<lambda>d. ItemizedDeduction.category d = MORTGAGE_INTEREST)
               (itemizedDeductions (deductions taxReturn))
           \<and> adjustedGrossIncome (calculations taxReturn) > 40000
        then 1 else 0)
   \<and> length (analyzeCharitableDeductions taxReturn) =
       (if currentItemized taxReturn CHARITABLE_CONTRIBUTIONS
             < min (adjustedGrossIncome (calculations taxReturn) * (2 / 100)) 2000
        then 1 else 0)
   \<and> length (analyzeBusinessDeductions taxReturn) =
       (if selfEmployment (income taxReturn) = [] then 0 else 3)
   \<and> length (analyzeEducationDeductions taxReturn) =
       (if adjustedGrossIncome (calculations taxReturn) < 85000 then 1 else 0)
       + (if adjustedGrossIncome (calculations taxReturn) < 80000 then 1 else 0)
   \<and> length (analyzeRetirementDeductions taxReturn) =
       1 + (if adjustedGrossIncome (calculations taxReturn) < 100000 then 1 else 0)
   \<and> mset (generateDeductionRecommendations taxReturn) =
       mset (analyzeMedicalDeductions taxReturn) + mset (analyzeStateLocalTaxDeductions taxReturn)
       + mset (analyzeMortgageInterestDeductions taxReturn) + mset (analyzeCharitableDeductions taxReturn)
       + mset (analyzeBusinessDeductions taxReturn) + mset (analyzeEducationDeductions taxReturn)
       + mset (analyzeRetirementDeductions taxReturn)"
proof -
  have 1: "length (analyzeMedicalDeductions taxReturn) =
     (if currentItemized taxReturn MEDICAL_DENTAL < adjustedGrossIncome (calculations taxReturn) * (75 / 1000)
      then 1 else 0)
     + (if adjustedGrossIncome (calculations taxReturn) > 50000 then 1 else 0)"
    by (simp add: analyzeMedicalDeductions_def Let_def)
  have 2: "length (analyzeStateLocalTaxDeductions taxReturn) =
       (if currentItemized taxReturn STATE_LOCAL_TAXES < 10000 then 1 else 0)"
    by (simp add: analyzeStateLocalTaxDeductions_def Let_def)
  have 3: "length (analyzeMortgageInterestDeductions taxReturn) =
       (if \<not> list_ex (\<lambda>d. ItemizedDeduction.category d = MORTGAGE_INTEREST)
               (itemizedDeductions (deductions taxReturn))
           \<and> adjustedGrossIncome (calculations taxReturn) > 40000
        then 1 else 0)"
    by (simp add: analyzeMortgageInterestDeductions_def Let_def)
  have 4: "length (analyzeCharitableDeductions taxReturn) =
       (if currentItemized taxReturn CHARITABLE_CONTRIBUTIONS
             < min (adjustedGrossIncome (calculations taxReturn) * (2 / 100)) 2000
        then 1 else 0)"
    by (simp add: analyzeCharitableDeductions_def Let_def)
  have 5: "length (analyzeBusinessDeductions taxReturn) =
       (if selfEmployment (income taxReturn) = [] then 0 else 3)"
    by (simp add: analyzeBusinessDeductions_def Let_def)
  have 6: "length (analyzeEducationDeductions taxReturn) =
       (if adjustedGrossIncome (calculations taxReturn) < 85000 then 1 else 0)
       + (if adjustedGrossIncome (calculations taxReturn) < 80000 then 1 else 0)"
    by (simp add: analyzeEducationDeductions_def Let_def)
  have 7: "length (analyzeRetirementDeductions taxReturn) =
       1 + (if adjustedGrossIncome (calculations taxReturn) < 100000 then 1 else 0)"
    by (simp add: analyzeRetirementDeductions_def Let_def)
  have 8: "mset (generateDeductionRecommendations taxReturn) =
       mset (analyzeMedicalDeductions taxReturn) + mset (analyzeStateLocalTaxDeductions taxReturn)
       + mset (analyzeMortgageInterestDeductions taxReturn) + mset (analyzeCharitableDeductions taxReturn)
       + mset (analyzeBusinessDeductions taxReturn) + mset (analyzeEducationDeductions taxReturn)
       + mset (analyzeRetirementDeductions taxReturn)"
    by (simp add: generateDeductionRecommendations_def Array_sort_mset ruleRecommendations_def)
  show ?thesis using 1 2 3 4 5 6 7 8 by blast
qed

text \<open>
  The property for the consultant: two medical recommendations, one each for state and
  local taxes, mortgage interest and charitable gifts, three for the business, none for
  education and one for retirement.
\<close>

theorem C8_witness:
  "length (analyzeMedicalDeductions consultant) = 2
   \<and> length (analyzeStateLocalTaxDeductions consultant) = 1
   \<and> length (analyzeMortgageInterestDeductions consultant) = 1
   \<and> length (analyzeCharitableDeductions consultant) = 1
   \<and> length (analyzeBusinessDeductions consultant) = 3
   \<and> length (analyzeEducationDeductions consultant) = 0
   \<and> length (analyzeRetirementDeductions consultant) = 1"
  using C8_contributions [of consultant]
  by (simp add: consultant_def selfEmployed_def noDeductions_def emptyCalculation_def currentItemized_def)

text \<open>
  A rule can contribute more than one recommendation: for the consultant the business rule
  contributes three.
\<close>

theorem C8_counterexample:
  "\<not> length (analyzeBusinessDeductions consultant) \<le> 1"
  by (simp add: analyzeBusinessDeductions_def consultant_def selfEmployed_def Let_def)

subsection \<open>The tax return of the caller\<close>

lemma readTaxReturn_Some:
  assumes "readTaxReturn h r = Some taxReturn"
  obtains ob d where "r < length h" "h ! r = ReturnObject ob"
    "deductionsRef ob < length h" "h ! deductionsRef ob = DeductionsObject d"
    "taxReturn = \<lparr>id = idOf ob, TaxReturn.taxYear = taxYearOf ob, filingStatus = filingStatusOf ob,
       income = incomeOf ob, deductions = d, credits = creditsOf ob, calculations = calculationsOf ob\<rparr>"
  using assms
  by (auto simp add: readTaxReturn_def load_def split: option.splits object.splits if_splits)

lemma readTaxReturn_append:
  "readTaxReturn h r = Some taxReturn \<Longrightarrow> readTaxReturn (h @ xs) r = Some taxReturn"
  by (auto simp add: readTaxReturn_def load_def nth_append split: option.splits object.splits if_splits)

lemma strategy_store:
  assumes "readTaxReturn h r = Some taxReturn"
  shows "\<exists>ob d answer svc'.
           h ! r = ReturnObject ob \<and> h ! deductionsRef ob = DeductionsObject d
           \<and> analyzeDeductionStrategy svc h r ps =
               (Inr answer, svc',
                h @ [ReturnObject (ob\<lparr>deductionsRef := Suc (length h)\<rparr>),
                     DeductionsObject
                       (d\<lparr>totalItemizedDeductions := totalItemizedDeductions d + proposedTotal ps\<rparr>)])"
proof -
  obtain ob d where r: "r < length h" "h ! r = ReturnObject ob"
    and dr: "deductionsRef ob < length h" "h ! deductionsRef ob = DeductionsObject d"
    using assms by (rule readTaxReturn_Some)
  define h1 where "h1 = h @ [ReturnObject ob]"
  define h2 where "h2 = h @ [ReturnObject (ob\<lparr>deductionsRef := Suc (length h)\<rparr>), DeductionsObject d]"
  define h3 where "h3 = h @ [ReturnObject (ob\<lparr>deductionsRef := Suc (length h)\<rparr>),
     DeductionsObject (d\<lparr>totalItemizedDeductions := totalItemizedDeductions d + proposedTotal ps\<rparr>)]"
  have s1: "spreadTaxReturn h r = Some (length h, h1)"
    using r by (simp add: spreadTaxReturn_def load_def alloc_def h1_def)
  have s2: "assignSpreadDeductions h1 (length h) r = Some h2"
    using r dr by (simp add: assignSpreadDeductions_def load_def alloc_def put_def h1_def h2_def nth_append)
  have s3: "addToTotalItemized h2 (length h) (proposedTotal ps) = Some h3"
    by (simp add: addToTotalItemized_def load_def put_def h2_def h3_def nth_append list_update_append)
  have s4: "readTaxReturn h3 r = Some taxReturn"
    unfolding h3_def using assms by (rule readTaxReturn_append)
  have s5: "\<exists>m. readTaxReturn h3 (length h) = Some m"
    by (simp add: readTaxReturn_def load_def h3_def nth_append)
  have fold: "fold (\<lambda>d sum. sum + ProposedDeduction.amount d) ps 0 = proposedTotal ps"
    by (simp add: fold_plus_sum_list proposedTotal_def)
  have "\<exists>answer svc'. analyzeDeductionStrategy svc h r ps = (Inr answer, svc', h3)"
    using s5
    by (auto simp add: analyzeDeductionStrategy_def assms s1 s2 s3 s4 fold Let_def split: prod.splits)
  then show ?thesis
    using r(2) dr(2) by (simp add: h3_def)
qed

text \<open>
  The copy of the deductions object is what keeps the return of the caller apart: after
  the copy of the return object alone, the two return objects share one deductions object,
  and the addition would reach the return of the caller.
\<close>

lemma shared_deductions_without_second_copy:
  "spreadTaxReturn wageEarnerStore 0 = Some (2, wageEarnerStore @ [wageEarnerStore ! 0])
   \<and> (\<exists>h. addToTotalItemized (wageEarnerStore @ [wageEarnerStore ! 0]) 2 20000 = Some h
          \<and> readTaxReturn h 0 = Some (wageEarner\<lparr>deductions := noDeductions\<lparr>totalItemizedDeductions := 20000\<rparr>\<rparr>))"
  by (simp add: spreadTaxReturn_def addToTotalItemized_def readTaxReturn_def load_def alloc_def put_def
      wageEarnerStore_def wageEarner_def noDeductions_def)

text \<open>
  Claim C10. For every service, store, reference and list of proposed deductions,
  \<^verbatim>\<open>analyzeDeductionStrategy\<close> leaves every object that was in the store as it was, so the
  reference of the caller stands for the same tax return after the call as before; and
  when that reference stands for a tax return, the object that the call adds at the end of
  the store stands for that return with the total of the itemized deductions increased by
  the sum of the proposed amounts.
\<close>

theorem C10_input_unchanged:
  "take (length h) (snd (snd (analyzeDeductionStrategy svc h r ps))) = h
   \<and> readTaxReturn (snd (snd (analyzeDeductionStrategy svc h r ps))) r = readTaxReturn h r
   \<and> (\<forall>taxReturn. readTaxReturn h r = Some taxReturn \<longrightarrow>
         readTaxReturn (snd (snd (analyzeDeductionStrategy svc h r ps))) (length h) =
           Some (taxReturn\<lparr>deductions := (deductions taxReturn)
                   \<lparr>totalItemizedDeductions :=
                      totalItemizedDeductions (deductions taxReturn) + proposedTotal ps\<rparr>\<rparr>))"
proof (cases "readTaxReturn h r")
  case None
  then show ?thesis by (simp add: analyzeDeductionStrategy_def)
next
  case (Some taxReturn)
  obtain ob d answer svc' where ob: "h ! r = ReturnObject ob" and d: "h ! deductionsRef ob = DeductionsObject d"
    and run: "analyzeDeductionStrategy svc h r ps =
               (Inr answer, svc',
                h @ [ReturnObject (ob\<lparr>deductionsRef := Suc (length h)\<rparr>),
                     DeductionsObject
                       (d\<lparr>totalItemizedDeductions := totalItemizedDeductions d + proposedTotal ps\<rparr>)])"
    using strategy_store [OF Some] by blast
  have tr: "taxReturn = \<lparr>id = idOf ob, TaxReturn.taxYear = taxYearOf ob, filingStatus = filingStatusOf ob,
       income = incomeOf ob, deductions = d, credits = creditsOf ob, calculations = calculationsOf ob\<rparr>"
    using Some ob d by (auto elim!: readTaxReturn_Some)
  have "readTaxReturn (snd (snd (analyzeDeductionStrategy svc h r ps))) r = Some taxReturn"
    unfolding run using Some by (simp add: readTaxReturn_append)
  moreover have "readTaxReturn (snd (snd (analyzeDeductionStrategy svc h r ps))) (length h) =
     Some (taxReturn\<lparr>deductions := (deductions taxReturn)
                   \<lparr>totalItemizedDeductions :=
                      totalItemizedDeductions (deductions taxReturn) + proposedTotal ps\<rparr>\<rparr>)"
    unfolding run by (simp add: readTaxReturn_def load_def nth_append tr)
  ultimately show ?thesis using Some by (simp add: run)
qed

text \<open>
  The property for the store of the wage earner and the proposal of 20000: reference 0
  stands for the wage earner before and after, and reference 2 for the return that
  itemizes 20000.
\<close>

theorem C10_witness:
  "readTaxReturn wageEarnerStore 0 = Some wageEarner
   \<and> proposedTotal gifts = 20000
   \<and> take 2 (snd (snd (analyzeDeductionStrategy seededService wageEarnerStore 0 gifts))) = wageEarnerStore
   \<and> readTaxReturn (snd (snd (analyzeDeductionStrategy seededService wageEarnerStore 0 gifts))) 0
       = Some wageEarner
   \<and> readTaxReturn (snd (snd (analyzeDeductionStrategy seededService wageEarnerStore 0 gifts))) 2
       = Some (wageEarner\<lparr>deductions := noDeductions\<lparr>totalItemizedDeductions := 20000\<rparr>\<rparr>)"
proof -
  have r: "readTaxReturn wageEarnerStore 0 = Some wageEarner"
    by (simp add: readTaxReturn_def load_def wageEarnerStore_def wageEarner_def)
  have p: "proposedTotal gifts = 20000"
    by (simp add: proposedTotal_def gifts_def)
  have l: "length wageEarnerStore = 2"
    by (simp add: wageEarnerStore_def)
  have d: "deductions wageEarner = noDeductions" "totalItemizedDeductions noDeductions = 0"
    by (simp_all add: wageEarner_def noDeductions_def)
  show ?thesis
    using C10_input_unchanged [of wageEarnerStore seededService 0 gifts] r p
    by (simp add: l d)
qed

end
